theory Spec2Isabelle
  imports Main
begin

section \<open>Python values and library functions used by the scripts\<close>

text \<open>
  The two scripts (\<^verbatim>\<open>fixed_hnas_pre_backup.py\<close>, \<^verbatim>\<open>fixed_hnas_post_backup.py\<close>) exchange JSON
  with the array's REST API and with each other (the manifest file). A decoded JSON document is
  a value of \<open>json\<close>. JSON numbers with a fraction or an exponent (Python floats) are not
  part of the model: identifiers and epoch seconds are integers or strings. A decoded object has
  unique keys, so the association list of \<open>JObj\<close> is read with \<open>map_of\<close>. A string is the
  list of its code points, and a \<open>char\<close> is a code point from 0 to 255: the library functions
  below are Python's on such strings (text with code points above 255 has no counterpart).
\<close>

datatype json =
    JNull
  | JBool bool
  | JInt int
  | JStr string
  | JArr "json list"
  | JObj "(string \<times> json) list"

datatype py_exn =
    ValueError
  | TypeError
  | AttributeError
  | FileNotFoundError
  | OSError
  | HTTPError nat
  | RequestException

text \<open>Truth value of a decoded JSON value in a Python condition (\<^verbatim>\<open>if x:\<close>).\<close>

fun truthy :: "json \<Rightarrow> bool" where
  "truthy JNull = False"
| "truthy (JBool b) = b"
| "truthy (JInt i) = (i \<noteq> 0)"
| "truthy (JStr s) = (s \<noteq> [])"
| "truthy (JArr xs) = (xs \<noteq> [])"
| "truthy (JObj kv) = (kv \<noteq> [])"

text \<open>\<^verbatim>\<open>d.get(k)\<close> and \<^verbatim>\<open>d.get(k, default)\<close> on a dict.\<close>

definition dict_get :: "(string \<times> json) list \<Rightarrow> string \<Rightarrow> json \<Rightarrow> json" where
  "dict_get kv k d = (case map_of kv k of None \<Rightarrow> d | Some v \<Rightarrow> v)"

text \<open>
  \<^verbatim>\<open>x.get(k, default)\<close> on an arbitrary decoded value: only a dict has the method, every
  other value raises AttributeError.
\<close>

fun obj_get :: "json \<Rightarrow> string \<Rightarrow> json \<Rightarrow> py_exn + json" where
  "obj_get (JObj kv) k d = Inr (dict_get kv k d)"
| "obj_get _ k d = Inl AttributeError"

text \<open>
  \<^verbatim>\<open>for x in v\<close> on a decoded value: a list yields its elements, a string its characters,
  a dict its keys; None, booleans and integers are not iterable (TypeError).
\<close>

fun py_iter :: "json \<Rightarrow> py_exn + json list" where
  "py_iter (JArr xs) = Inr xs"
| "py_iter (JStr s) = Inr (map (\<lambda>c. JStr [c]) s)"
| "py_iter (JObj kv) = Inr (map (\<lambda>p. JStr (fst p)) kv)"
| "py_iter _ = Inl TypeError"

text \<open>\<^verbatim>\<open>os.environ.get(name, default)\<close>.\<close>

type_synonym environ = "string \<Rightarrow> string option"

definition getenv :: "environ \<Rightarrow> string \<Rightarrow> string \<Rightarrow> string" where
  "getenv env name d = (case env name of None \<Rightarrow> d | Some v \<Rightarrow> v)"

subsection \<open>Characters and strings\<close>

definition code :: "char \<Rightarrow> nat" where
  "code c = of_char c"

definition is_digit :: "char \<Rightarrow> bool" where
  "is_digit c = (48 \<le> code c \<and> code c \<le> 57)"

definition digit_val :: "char \<Rightarrow> nat" where
  "digit_val c = code c - 48"

text \<open>
  \<^verbatim>\<open>str.lower()\<close>: below 256 the letters A to Z and the accented capitals 192 to 222
  (without the multiplication sign 215) move up by 32.
\<close>

definition lower_char :: "char \<Rightarrow> char" where
  "lower_char c =
     (if (65 \<le> code c \<and> code c \<le> 90) \<or> (192 \<le> code c \<and> code c \<le> 222 \<and> code c \<noteq> 215)
      then char_of (code c + 32) else c)"

definition lower :: "string \<Rightarrow> string" where
  "lower s = map lower_char s"

text \<open>
  \<^verbatim>\<open>str.strip()\<close> removes leading and trailing white space; below 256 these are the
  code points 9 to 13, 28 to 32, 133 and 160.
\<close>

definition is_space :: "char \<Rightarrow> bool" where
  "is_space c =
     ((9 \<le> code c \<and> code c \<le> 13) \<or> (28 \<le> code c \<and> code c \<le> 32)
      \<or> code c = 133 \<or> code c = 160)"

definition strip :: "string \<Rightarrow> string" where
  "strip s = rev (dropWhile is_space (rev (dropWhile is_space s)))"

text \<open>\<^verbatim>\<open>s.split(sep)\<close> for a one-character separator; the result is never empty.\<close>

fun split_on :: "char \<Rightarrow> string \<Rightarrow> string list" where
  "split_on sep [] = [[]]"
| "split_on sep (c # cs) =
     (if c = sep then [] # split_on sep cs
      else (case split_on sep cs of
              [] \<Rightarrow> [[c]]
            | w # ws \<Rightarrow> (c # w) # ws))"

text \<open>\<^verbatim>\<open>s.startswith(prefix)\<close>.\<close>

definition startswith :: "string \<Rightarrow> string \<Rightarrow> bool" where
  "startswith s p = (take (length p) s = p)"

text \<open>Decimal value of a digit string, most significant digit first.\<close>

definition digits_val :: "string \<Rightarrow> nat" where
  "digits_val ds = foldl (\<lambda>acc c. 10 * acc + digit_val c) 0 ds"

text \<open>
  \<^verbatim>\<open>int(s)\<close> on a string, base 10 (CPython 3.11): white space around the literal is
  dropped (below 256 the code points 9 to 13, 32, 133 and 160; not 28 to 31), one sign may
  follow, then digits with single underscores between them; at most 4300 digits are accepted.
  Below 256 the decimal digits are 0 to 9 only. \<open>None\<close> stands for ValueError.
\<close>

definition is_int_space :: "char \<Rightarrow> bool" where
  "is_int_space c =
     ((9 \<le> code c \<and> code c \<le> 13) \<or> code c = 32 \<or> code c = 133 \<or> code c = 160)"

fun digit_groups :: "string \<Rightarrow> bool" where
  "digit_groups [] = False"
| "digit_groups [c] = is_digit c"
| "digit_groups (c # d # cs) =
     (if is_digit c then (if d = CHR ''_'' then digit_groups cs else digit_groups (d # cs))
      else False)"

definition int_max_str_digits :: nat where
  "int_max_str_digits = 4300"

definition py_int_unsigned :: "string \<Rightarrow> nat option" where
  "py_int_unsigned body =
     (let ds = filter (\<lambda>c. c \<noteq> CHR ''_'') body in
      if digit_groups body \<and> length ds \<le> int_max_str_digits then Some (digits_val ds)
      else None)"

definition py_int :: "string \<Rightarrow> int option" where
  "py_int s =
     (let t = rev (dropWhile is_int_space (rev (dropWhile is_int_space s))) in
      case t of
        [] \<Rightarrow> None
      | c # rest \<Rightarrow>
          if c = CHR ''-'' then map_option (\<lambda>n. - int n) (py_int_unsigned rest)
          else if c = CHR ''+'' then map_option int (py_int_unsigned rest)
          else map_option int (py_int_unsigned t))"

subsection \<open>Naive date-times and \<^verbatim>\<open>datetime.strptime\<close>\<close>

text \<open>
  A naive \<^verbatim>\<open>datetime\<close> is its seven fields; Python orders two of them field by field,
  most significant first.
\<close>

record datetime =
  year :: nat
  month :: nat
  day :: nat
  hour :: nat
  minute :: nat
  second :: nat
  microsecond :: nat

definition dt_fields :: "datetime \<Rightarrow> nat list" where
  "dt_fields d = [year d, month d, day d, hour d, minute d, second d, microsecond d]"

fun lex_less :: "nat list \<Rightarrow> nat list \<Rightarrow> bool" where
  "lex_less [] ys = (ys \<noteq> [])"
| "lex_less (x # xs) [] = False"
| "lex_less (x # xs) (y # ys) = (x < y \<or> (x = y \<and> lex_less xs ys))"

definition dt_less :: "datetime \<Rightarrow> datetime \<Rightarrow> bool" where
  "dt_less a b = lex_less (dt_fields a) (dt_fields b)"

definition is_leap :: "nat \<Rightarrow> bool" where
  "is_leap y = (y mod 4 = 0 \<and> (y mod 100 \<noteq> 0 \<or> y mod 400 = 0))"

definition days_in_month :: "nat \<Rightarrow> nat \<Rightarrow> nat" where
  "days_in_month y m =
     (if m = 2 then (if is_leap y then 29 else 28)
      else if m \<in> set [4, 6, 9, 11] then 30 else 31)"

text \<open>
  \<^verbatim>\<open>datetime.strptime(s, '%Y%m%d_%H%M%S')\<close> (CPython's \<^verbatim>\<open>_strptime\<close>) turns the format
  into the regular expression
  \<^verbatim>\<open>(\d\d\d\d)(1[0-2]|0[1-9]|[1-9])(3[0-1]|[1-2]\d|0[1-9]|[1-9]| [1-9])_(2[0-3]|[0-1]\d|\d)([0-5]\d|\d)(6[0-1]|[0-5]\d|\d)\<close>,
  matches it at the start of the string, and raises ValueError when there is no match, when
  the match leaves text over, or when the fields are not a date-time. A directive is modelled
  by the list of its matches (value and rest of the input) in the order a backtracking
  matcher tries them; the first match of the whole expression is the head of the list.
\<close>

type_synonym 'a matcher = "string \<Rightarrow> ('a \<times> string) list"

definition in_range :: "char \<Rightarrow> nat \<Rightarrow> nat \<Rightarrow> bool" where
  "in_range c lo hi = (is_digit c \<and> lo \<le> digit_val c \<and> digit_val c \<le> hi)"

text \<open>Two digits, the first between \<open>lo1\<close> and \<open>hi1\<close>, the second between \<open>lo2\<close> and \<open>hi2\<close>.\<close>

definition two_digits :: "nat \<Rightarrow> nat \<Rightarrow> nat \<Rightarrow> nat \<Rightarrow> nat matcher" where
  "two_digits lo1 hi1 lo2 hi2 s =
     (case s of
        a # b # rest \<Rightarrow>
          (if in_range a lo1 hi1 \<and> in_range b lo2 hi2
           then [(10 * digit_val a + digit_val b, rest)] else [])
      | _ \<Rightarrow> [])"

definition one_digit :: "nat \<Rightarrow> nat \<Rightarrow> nat matcher" where
  "one_digit lo hi s =
     (case s of
        a # rest \<Rightarrow> (if in_range a lo hi then [(digit_val a, rest)] else [])
      | _ \<Rightarrow> [])"

definition space_digit :: "nat matcher" where
  "space_digit s =
     (case s of
        a # b # rest \<Rightarrow>
          (if a = CHR '' '' \<and> in_range b 1 9 then [(digit_val b, rest)] else [])
      | _ \<Rightarrow> [])"

definition dir_Y :: "nat matcher" where
  "dir_Y s =
     (case s of
        a # b # c # d # rest \<Rightarrow>
          (if is_digit a \<and> is_digit b \<and> is_digit c \<and> is_digit d
           then [(digits_val [a, b, c, d], rest)] else [])
      | _ \<Rightarrow> [])"

definition dir_m :: "nat matcher" where
  "dir_m s = two_digits 1 1 0 2 s @ two_digits 0 0 1 9 s @ one_digit 1 9 s"

definition dir_d :: "nat matcher" where
  "dir_d s = two_digits 3 3 0 1 s @ two_digits 1 2 0 9 s @ two_digits 0 0 1 9 s
             @ one_digit 1 9 s @ space_digit s"

definition dir_H :: "nat matcher" where
  "dir_H s = two_digits 2 2 0 3 s @ two_digits 0 1 0 9 s @ one_digit 0 9 s"

definition dir_M :: "nat matcher" where
  "dir_M s = two_digits 0 5 0 9 s @ one_digit 0 9 s"

definition dir_S :: "nat matcher" where
  "dir_S s = two_digits 6 6 0 1 s @ two_digits 0 5 0 9 s @ one_digit 0 9 s"

definition literal :: "char \<Rightarrow> unit matcher" where
  "literal ch s = (case s of a # rest \<Rightarrow> (if a = ch then [((), rest)] else []) | _ \<Rightarrow> [])"

text \<open>Sequencing: every match of the first part, each followed by every match of the rest.\<close>

definition then_match :: "'a matcher \<Rightarrow> ('a \<Rightarrow> 'b matcher) \<Rightarrow> 'b matcher" where
  "then_match p f s = concat (map (\<lambda>(a, rest). f a rest) (p s))"

definition format_matches :: "datetime matcher" where
  "format_matches =
     then_match dir_Y (\<lambda>y. then_match dir_m (\<lambda>m. then_match dir_d (\<lambda>d.
     then_match (literal CHR ''_'') (\<lambda>_. then_match dir_H (\<lambda>H. then_match dir_M (\<lambda>M.
     then_match dir_S (\<lambda>S rest.
       [(\<lparr>year = y, month = m, day = d, hour = H, minute = M, second = S,
          microsecond = 0\<rparr>, rest)])))))))"

definition valid_datetime :: "datetime \<Rightarrow> bool" where
  "valid_datetime d =
     (1 \<le> year d \<and> 1 \<le> day d \<and> day d \<le> days_in_month (year d) (month d)
      \<and> second d \<le> 59)"

definition strptime :: "string \<Rightarrow> datetime option" where
  "strptime s =
     (case format_matches s of
        [] \<Rightarrow> None
      | (d, rest) # _ \<Rightarrow> (if rest = [] \<and> valid_datetime d then Some d else None))"

text \<open>
  \<^verbatim>\<open>strftime('%Y%m%d_%H%M%S')\<close> of a clock reading; the year of a clock reading has four
  digits.
\<close>

definition digit_char :: "nat \<Rightarrow> char" where
  "digit_char n = ''0123456789'' ! (n mod 10)"

definition pad2 :: "nat \<Rightarrow> string" where
  "pad2 n = [digit_char (n div 10), digit_char n]"

definition pad4 :: "nat \<Rightarrow> string" where
  "pad4 n = [digit_char (n div 1000), digit_char (n div 100), digit_char (n div 10), digit_char n]"

definition strftime :: "datetime \<Rightarrow> string" where
  "strftime d = pad4 (year d) @ pad2 (month d) @ pad2 (day d) @ ''_''
                @ pad2 (hour d) @ pad2 (minute d) @ pad2 (second d)"

section \<open>The storage client\<close>

text \<open>
  Every method of \<^verbatim>\<open>HNASSnapshotManager\<close> sends one request and reads the answer inside a
  \<^verbatim>\<open>try\<close>. A request is recorded as a \<open>call\<close>; identifiers are carried as the decoded
  values the script formats into the URL. The array and the network are a parameter of the
  model: \<open>remote w history c\<close> is the answer to call \<open>c\<close> after the calls \<open>history\<close>. An
  answer is a status line with a body (\<open>None\<close>: the body is not JSON), or no answer at all
  (connection refused, timeout). Log output has no effect on control flow; only the two
  warnings of the retention sweep are recorded.
\<close>

datatype call =
    Probe
  | ListFilesystems
  | GetFilesystem json
  | DeleteShare json
  | DeleteSnapshot json
  | ListSnapshots json string
  | ListShares json
  | CreateSnapshot json string "string option" "int option"
  | CreateShare json json string string

datatype http_result =
    Response nat "json option"
  | NoResponse

datatype manifest_state =
    NoFile
  | Unreadable
  | Document json

text \<open>
  The machine the script runs on. A clock reading is identified by the calls made before it.
  \<open>epoch_cutoff w history days\<close> is the value of
  \<^verbatim>\<open>int((datetime.now() - timedelta(days=days)).timestamp())\<close> and \<open>date_cutoff w history days\<close>
  the value of \<^verbatim>\<open>datetime.now() - timedelta(days=days)\<close> (\<open>None\<close>: the expression raises);
  calendar and time-zone arithmetic belong to the library. \<open>manifest_file\<close> is what the
  post-phase finds at the manifest path and \<open>remove_succeeds\<close> tells whether
  \<^verbatim>\<open>os.remove\<close> of that file succeeds. For the pre-phase, \<open>os_path_dirname\<close> is the
  platform's \<^verbatim>\<open>os.path.dirname\<close> and \<open>manifest_writable\<close> tells whether creating the
  directory and writing the file succeed. \<open>hash_order w xs\<close> is the order in which Python
  iterates over a set whose elements were added in the order \<open>xs\<close>, and \<open>py_repr\<close> is Python's
  text for a list or dict inside an f-string.
\<close>

record world =
  remote :: "call list \<Rightarrow> call \<Rightarrow> http_result"
  clock :: "call list \<Rightarrow> datetime"
  epoch_cutoff :: "call list \<Rightarrow> int \<Rightarrow> int option"
  date_cutoff :: "call list \<Rightarrow> int \<Rightarrow> datetime option"
  manifest_file :: manifest_state
  remove_succeeds :: bool
  os_path_dirname :: "string \<Rightarrow> string"
  manifest_writable :: bool
  hash_order :: "json list \<Rightarrow> json list"
  py_repr :: "json \<Rightarrow> string"

definition request :: "world \<Rightarrow> call \<Rightarrow> call list \<Rightarrow> http_result \<times> call list" where
  "request w c cs = (remote w cs c, cs @ [c])"

text \<open>\<^verbatim>\<open>response.raise_for_status()\<close>: statuses 400 to 599 raise HTTPError.\<close>

definition raise_for_status :: "http_result \<Rightarrow> py_exn + (nat \<times> json option)" where
  "raise_for_status r =
     (case r of
        NoResponse \<Rightarrow> Inl RequestException
      | Response status body \<Rightarrow>
          (if 400 \<le> status \<and> status < 600 then Inl (HTTPError status)
           else Inr (status, body)))"

text \<open>\<^verbatim>\<open>raise_for_status()\<close> followed by \<^verbatim>\<open>response.json()\<close>.\<close>

definition response_json :: "http_result \<Rightarrow> py_exn + json" where
  "response_json r =
     (case raise_for_status r of
        Inl e \<Rightarrow> Inl e
      | Inr (status, body) \<Rightarrow> (case body of None \<Rightarrow> Inl ValueError | Some j \<Rightarrow> Inr j))"

subsection \<open>Delete operations\<close>

text \<open>
  \<open>delete_outcome\<close> is the \<^verbatim>\<open>try\<close> body with its two handlers, shared by
  \<^verbatim>\<open>delete_snapshot\<close> and \<^verbatim>\<open>delete_smb_share\<close>, which differ in the endpoint only.
  The first handler takes HTTPError, the second every other exception, so the method always
  returns a boolean.
\<close>

definition delete_outcome :: "http_result \<Rightarrow> bool" where
  "delete_outcome r =
     (case raise_for_status r of
        Inr _ \<Rightarrow> True
      | Inl (HTTPError status) \<Rightarrow> (if status = 404 then True else False)
      | Inl _ \<Rightarrow> False)"

definition delete_snapshot :: "world \<Rightarrow> json \<Rightarrow> call list \<Rightarrow> bool \<times> call list" where
  "delete_snapshot w snapshot_object_id cs =
     (let (r, cs') = request w (DeleteSnapshot snapshot_object_id) cs
      in (delete_outcome r, cs'))"

definition delete_smb_share :: "world \<Rightarrow> json \<Rightarrow> call list \<Rightarrow> bool \<times> call list" where
  "delete_smb_share w share_object_id cs =
     (let (r, cs') = request w (DeleteShare share_object_id) cs
      in (delete_outcome r, cs'))"

subsection \<open>Read operations\<close>

definition test_connection :: "world \<Rightarrow> call list \<Rightarrow> bool \<times> call list" where
  "test_connection w cs =
     (let (r, cs') = request w Probe cs
      in ((case response_json r of
             Inl _ \<Rightarrow> False
           | Inr device_info \<Rightarrow>
               (case obj_get device_info ''name'' (JStr ''Unknown'') of
                  Inl _ \<Rightarrow> False
                | Inr _ \<Rightarrow> True)), cs'))"

definition get_all_filesystems :: "world \<Rightarrow> call list \<Rightarrow> json \<times> call list" where
  "get_all_filesystems w cs =
     (let (r, cs') = request w ListFilesystems cs
      in ((case response_json r of
             Inl _ \<Rightarrow> JArr []
           | Inr j \<Rightarrow>
               (case obj_get j ''filesystems'' (JArr []) of
                  Inl _ \<Rightarrow> JArr []
                | Inr v \<Rightarrow> v)), cs'))"

text \<open>
  The scan of \<^verbatim>\<open>get_filesystem_by_name\<close>: the first entry whose label equals the name; an
  entry that is not a dict raises inside the \<^verbatim>\<open>try\<close>, which ends the scan with None.
\<close>

fun label_scan :: "string \<Rightarrow> json list \<Rightarrow> json option" where
  "label_scan filesystem_name [] = None"
| "label_scan filesystem_name (fs # rest) =
     (case obj_get fs ''label'' JNull of
        Inl _ \<Rightarrow> None
      | Inr l \<Rightarrow> (if l = JStr filesystem_name then Some fs else label_scan filesystem_name rest))"

definition get_filesystem_by_name :: "world \<Rightarrow> string \<Rightarrow> call list \<Rightarrow> json option \<times> call list" where
  "get_filesystem_by_name w filesystem_name cs =
     (let (filesystems, cs') = get_all_filesystems w cs
      in ((case py_iter filesystems of
             Inl _ \<Rightarrow> None
           | Inr fss \<Rightarrow> label_scan filesystem_name fss), cs'))"

definition get_filesystem_info :: "world \<Rightarrow> json \<Rightarrow> call list \<Rightarrow> json option \<times> call list" where
  "get_filesystem_info w filesystem_id cs =
     (let (r, cs') = request w (GetFilesystem filesystem_id) cs
      in ((case response_json r of Inl _ \<Rightarrow> None | Inr j \<Rightarrow> Some j), cs'))"

definition get_filesystem_snapshots :: "world \<Rightarrow> json \<Rightarrow> string \<Rightarrow> call list \<Rightarrow> json \<times> call list" where
  "get_filesystem_snapshots w filesystem_id app_search_id cs =
     (let (r, cs') = request w (ListSnapshots filesystem_id app_search_id) cs
      in ((case response_json r of
             Inl _ \<Rightarrow> JArr []
           | Inr snapshots_data \<Rightarrow>
               (case obj_get snapshots_data ''snapshots'' (JArr []) of
                  Inl _ \<Rightarrow> JArr []
                | Inr v \<Rightarrow> v)), cs'))"

text \<open>
  The prefix filter of \<^verbatim>\<open>get_virtual_server_smb_shares\<close>; \<open>None\<close> when an entry raises
  (it is not a dict, or its name is not a string), in which case the method returns \<open>[]\<close>.
\<close>

fun matching_shares :: "string \<Rightarrow> json list \<Rightarrow> json list option" where
  "matching_shares share_name_prefix [] = Some []"
| "matching_shares share_name_prefix (share # rest) =
     (case obj_get share ''name'' (JStr []) of
        Inr (JStr share_name) \<Rightarrow>
          (case matching_shares share_name_prefix rest of
             None \<Rightarrow> None
           | Some ms \<Rightarrow>
               Some (if startswith share_name share_name_prefix then share # ms else ms))
      | _ \<Rightarrow> None)"

definition get_virtual_server_smb_shares ::
  "world \<Rightarrow> json \<Rightarrow> string \<Rightarrow> call list \<Rightarrow> json list \<times> call list" where
  "get_virtual_server_smb_shares w virtual_server_id share_name_prefix cs =
     (let (r, cs') = request w (ListShares virtual_server_id) cs
      in ((case response_json r of
             Inl _ \<Rightarrow> []
           | Inr shares_data \<Rightarrow>
               (case obj_get shares_data ''filesystemShares'' (JArr []) of
                  Inl _ \<Rightarrow> []
                | Inr v \<Rightarrow>
                    (case py_iter v of
                       Inl _ \<Rightarrow> []
                     | Inr shares \<Rightarrow>
                         (case matching_shares share_name_prefix shares of
                            None \<Rightarrow> []
                          | Some ms \<Rightarrow> ms)))), cs'))"

section \<open>The retention sweep\<close>

subsection \<open>Snapshots\<close>

text \<open>
  What the loop of \<^verbatim>\<open>cleanup_old_snapshots\<close> makes of a \<^verbatim>\<open>creationTime\<close> value: a
  string goes through \<^verbatim>\<open>int()\<close>, and ValueError skips the snapshot; an integer (or a
  boolean, which Python compares as 0 or 1) is compared as it is; any other value raises
  TypeError at the comparison.
\<close>

datatype creation_time = Epoch int | Unparsable | Incomparable

fun normalize_creation_time :: "json \<Rightarrow> creation_time" where
  "normalize_creation_time (JStr s) = (case py_int s of None \<Rightarrow> Unparsable | Some t \<Rightarrow> Epoch t)"
| "normalize_creation_time (JInt t) = Epoch t"
| "normalize_creation_time (JBool b) = Epoch (if b then 1 else 0)"
| "normalize_creation_time _ = Incomparable"

datatype log = InvalidCreationTime json | UnexpectedShareName string

text \<open>
  The state of a sweep loop: the deleted count, the calls made, the warnings logged. An
  exception inside the loop reaches the outer handler, which returns 0; the calls already
  made stay made.
\<close>

type_synonym sweep = "nat \<times> call list \<times> log list"

fun snapshot_loop :: "world \<Rightarrow> int \<Rightarrow> json list \<Rightarrow> sweep \<Rightarrow> sweep" where
  "snapshot_loop w cutoff_time [] st = st"
| "snapshot_loop w cutoff_time (snapshot # rest) (deleted_count, cs, logs) =
     (case obj_get snapshot ''creationTime'' (JInt 0) of
        Inl _ \<Rightarrow> (0, cs, logs)
      | Inr v \<Rightarrow>
          (case normalize_creation_time v of
             Unparsable \<Rightarrow>
               snapshot_loop w cutoff_time rest
                 (deleted_count, cs, logs @ [InvalidCreationTime snapshot])
           | Incomparable \<Rightarrow> (0, cs, logs)
           | Epoch creation_time \<Rightarrow>
               (if creation_time < cutoff_time then
                  (case obj_get snapshot ''objectId'' JNull of
                     Inl _ \<Rightarrow> (0, cs, logs)
                   | Inr snapshot_object_id \<Rightarrow>
                       (if truthy snapshot_object_id then
                          (let (ok, cs') = delete_snapshot w snapshot_object_id cs
                           in snapshot_loop w cutoff_time rest
                                (if ok then deleted_count + 1 else deleted_count, cs', logs))
                        else snapshot_loop w cutoff_time rest (deleted_count, cs, logs)))
                else snapshot_loop w cutoff_time rest (deleted_count, cs, logs))))"

definition cleanup_old_snapshots :: "world \<Rightarrow> json \<Rightarrow> string \<Rightarrow> int \<Rightarrow> call list \<Rightarrow> sweep" where
  "cleanup_old_snapshots w filesystem_id app_search_id retention_days cs =
     (let (snapshots, cs1) = get_filesystem_snapshots w filesystem_id app_search_id cs
      in if \<not> truthy snapshots then (0, cs1, [])
         else (case epoch_cutoff w cs1 retention_days of
                 None \<Rightarrow> (0, cs1, [])
               | Some cutoff_time \<Rightarrow>
                   (case py_iter snapshots of
                      Inl _ \<Rightarrow> (0, cs1, [])
                    | Inr xs \<Rightarrow> snapshot_loop w cutoff_time xs (0, cs1, []))))"

subsection \<open>Shares\<close>

text \<open>
  The inner \<^verbatim>\<open>try\<close> of \<^verbatim>\<open>cleanup_old_smb_shares\<close> on one share name: with fewer than three
  parts between underscores nothing is parsed and nothing is logged; otherwise the last two
  parts go through \<^verbatim>\<open>strptime\<close>, whose ValueError is logged.
\<close>

datatype share_stamp = Stamp datetime | TooFewParts | BadFormat

definition share_timestamp :: "string \<Rightarrow> share_stamp" where
  "share_timestamp share_name =
     (let parts = split_on CHR ''_'' share_name
      in if length parts \<ge> 3 then
           (let date_part = parts ! (length parts - 2);
                time_part = parts ! (length parts - 1);
                timestamp_str = date_part @ ''_'' @ time_part
            in case strptime timestamp_str of None \<Rightarrow> BadFormat | Some share_date \<Rightarrow> Stamp share_date)
         else TooFewParts)"

fun share_loop :: "world \<Rightarrow> datetime \<Rightarrow> json list \<Rightarrow> sweep \<Rightarrow> sweep" where
  "share_loop w cutoff_date [] st = st"
| "share_loop w cutoff_date (share # rest) (deleted_count, cs, logs) =
     (case obj_get share ''name'' (JStr []) of
        Inr (JStr share_name) \<Rightarrow>
          (case share_timestamp share_name of
             TooFewParts \<Rightarrow> share_loop w cutoff_date rest (deleted_count, cs, logs)
           | BadFormat \<Rightarrow>
               share_loop w cutoff_date rest
                 (deleted_count, cs, logs @ [UnexpectedShareName share_name])
           | Stamp share_date \<Rightarrow>
               (if dt_less share_date cutoff_date then
                  (case obj_get share ''objectId'' JNull of
                     Inl _ \<Rightarrow> (0, cs, logs)
                   | Inr share_object_id \<Rightarrow>
                       (if truthy share_object_id then
                          (let (ok, cs') = delete_smb_share w share_object_id cs
                           in share_loop w cutoff_date rest
                                (if ok then deleted_count + 1 else deleted_count, cs', logs))
                        else share_loop w cutoff_date rest (deleted_count, cs, logs)))
                else share_loop w cutoff_date rest (deleted_count, cs, logs)))
      | _ \<Rightarrow> (0, cs, logs))"

definition cleanup_old_smb_shares :: "world \<Rightarrow> json \<Rightarrow> string \<Rightarrow> int \<Rightarrow> call list \<Rightarrow> sweep" where
  "cleanup_old_smb_shares w virtual_server_id share_name_prefix retention_days cs =
     (let (shares, cs1) = get_virtual_server_smb_shares w virtual_server_id share_name_prefix cs
      in if shares = [] then (0, cs1, [])
         else (case date_cutoff w cs1 retention_days of
                 None \<Rightarrow> (0, cs1, [])
               | Some cutoff_date \<Rightarrow> share_loop w cutoff_date shares (0, cs1, [])))"

section \<open>The post-phase\<close>

definition validate_backup_result :: "environ \<Rightarrow> bool \<times> string" where
  "validate_backup_result env =
     (let job_result = getenv env ''VEEAM_JOB_RESULT'' ''Unknown'';
          session_result = getenv env ''VEEAM_SESSION_RESULT'' ''Unknown''
      in if job_result \<in> set [''Success'', ''Warning''] then (True, job_result)
         else (False, job_result))"

record hnas_config =
  hnas_host :: string
  username :: string
  password :: string
  verify_ssl :: bool
  app_search_id :: string
  smb_share_name :: string

record post_config = hnas_config +
  cleanup_on_success :: bool
  cleanup_on_failure :: bool
  retention_days :: int

text \<open>The \<^verbatim>\<open>config\<close> dict of the post-phase; \<^verbatim>\<open>int()\<close> may raise ValueError.\<close>

definition post_configuration :: "environ \<Rightarrow> py_exn + post_config" where
  "post_configuration env =
     (case py_int (getenv env ''HNAS_RETENTION_DAYS'' ''7'') of
        None \<Rightarrow> Inl ValueError
      | Some days \<Rightarrow>
          Inr \<lparr>hnas_host = getenv env ''HNAS_HOST'' [],
               username = getenv env ''HNAS_USERNAME'' [],
               password = getenv env ''HNAS_PASSWORD'' [],
               verify_ssl = (lower (getenv env ''HNAS_VERIFY_SSL'' ''false'') = ''true''),
               app_search_id = getenv env ''HNAS_APP_SEARCH_ID'' ''veeam'',
               smb_share_name = getenv env ''HNAS_SMB_SHARE_NAME'' ''VeeamNASBackup'',
               cleanup_on_success =
                 (lower (getenv env ''HNAS_CLEANUP_ON_SUCCESS'' ''false'') = ''true''),
               cleanup_on_failure =
                 (lower (getenv env ''HNAS_CLEANUP_ON_FAILURE'' ''true'') = ''true''),
               retention_days = days\<rparr>)"

definition should_cleanup :: "bool \<Rightarrow> post_config \<Rightarrow> bool" where
  "should_cleanup backup_success config =
     ((backup_success \<and> cleanup_on_success config)
      \<or> (\<not> backup_success \<and> cleanup_on_failure config))"

text \<open>
  Loading the manifest: \<open>created_snapshots\<close> starts as \<open>[]\<close> and is assigned inside a
  \<^verbatim>\<open>try\<close> from the \<^verbatim>\<open>snapshots\<close> key of the document.
\<close>

definition load_manifest :: "manifest_state \<Rightarrow> json" where
  "load_manifest m =
     (case m of
        NoFile \<Rightarrow> JArr []
      | Unreadable \<Rightarrow> JArr []
      | Document snapshot_data \<Rightarrow>
          (case obj_get snapshot_data ''snapshots'' (JArr []) of
             Inl _ \<Rightarrow> JArr []
           | Inr v \<Rightarrow> v))"

text \<open>Manifest-driven cleanup: the share of an entry first, then its snapshot.\<close>

fun manifest_cleanup :: "world \<Rightarrow> json list \<Rightarrow> nat \<Rightarrow> call list \<Rightarrow> (py_exn + nat) \<times> call list" where
  "manifest_cleanup w [] deleted_count cs = (Inr deleted_count, cs)"
| "manifest_cleanup w (snapshot_info # rest) deleted_count cs =
     (case obj_get snapshot_info ''smb_share_object_id'' JNull of
        Inl e \<Rightarrow> (Inl e, cs)
      | Inr smb_share_object_id \<Rightarrow>
          (let cs1 = (if truthy smb_share_object_id
                      then snd (delete_smb_share w smb_share_object_id cs) else cs)
           in case obj_get snapshot_info ''snapshot_object_id'' JNull of
                Inl e \<Rightarrow> (Inl e, cs1)
              | Inr snapshot_object_id \<Rightarrow>
                  (if truthy snapshot_object_id then
                     (let (ok, cs2) = delete_snapshot w snapshot_object_id cs1
                      in manifest_cleanup w rest
                           (if ok then deleted_count + 1 else deleted_count) cs2)
                   else manifest_cleanup w rest deleted_count cs1)))"

subsection \<open>The targets of the retention sweep\<close>

text \<open>
  \<^verbatim>\<open>filesystems\<close> and \<^verbatim>\<open>virtual_servers\<close> are Python sets. The model keeps a set as the
  list of its elements in the order they were first added; a loop over the set visits them in
  the order \<open>hash_order\<close> of the machine. Python takes True for 1 and False for 0 when it
  looks an element up, so elements are compared by \<open>set_key\<close>, and the element added first
  stays. Adding a list or a dict raises TypeError (unhashable).
\<close>

fun set_key :: "json \<Rightarrow> json" where
  "set_key (JBool b) = JInt (if b then 1 else 0)"
| "set_key v = v"

fun hashable :: "json \<Rightarrow> bool" where
  "hashable (JArr xs) = False"
| "hashable (JObj kv) = False"
| "hashable _ = True"

definition set_insert :: "json \<Rightarrow> json list \<Rightarrow> json list" where
  "set_insert v xs = (if set_key v \<in> set (map set_key xs) then xs else xs @ [v])"

definition set_add :: "json \<Rightarrow> json list \<Rightarrow> py_exn + json list" where
  "set_add v xs = (if hashable v then Inr (set_insert v xs) else Inl TypeError)"

text \<open>\<^verbatim>\<open>if v: s.add(v)\<close>.\<close>

definition add_if_truthy :: "json \<Rightarrow> json list \<Rightarrow> py_exn + json list" where
  "add_if_truthy v xs = (if truthy v then set_add v xs else Inr xs)"

text \<open>\<^verbatim>\<open>fs_info.get('filesystem', {}).get('virtualServerId')\<close>.\<close>

definition virtual_server_of :: "json \<Rightarrow> py_exn + json" where
  "virtual_server_of fs_info =
     (case obj_get fs_info ''filesystem'' (JObj []) of
        Inl e \<Rightarrow> Inl e
      | Inr f \<Rightarrow> obj_get f ''virtualServerId'' JNull)"

text \<open>Looking up the virtual server of one filesystem and adding it to the set.\<close>

definition add_virtual_server ::
  "world \<Rightarrow> json \<Rightarrow> json list \<Rightarrow> call list \<Rightarrow> (py_exn + json list) \<times> call list" where
  "add_virtual_server w filesystem_id virtual_servers cs =
     (let (fs_info, cs') = get_filesystem_info w filesystem_id cs
      in case fs_info of
           None \<Rightarrow> (Inr virtual_servers, cs')
         | Some j \<Rightarrow>
             (if truthy j then
                (case virtual_server_of j of
                   Inl e \<Rightarrow> (Inl e, cs')
                 | Inr vs_id \<Rightarrow> (add_if_truthy vs_id virtual_servers, cs'))
              else (Inr virtual_servers, cs')))"

text \<open>The generator that fills \<^verbatim>\<open>filesystems\<close> from the manifest entries.\<close>

fun manifest_filesystems :: "json list \<Rightarrow> json list \<Rightarrow> py_exn + json list" where
  "manifest_filesystems [] filesystems = Inr filesystems"
| "manifest_filesystems (snap # rest) filesystems =
     (case obj_get snap ''filesystem_id'' JNull of
        Inl e \<Rightarrow> Inl e
      | Inr filesystem_id \<Rightarrow>
          (case add_if_truthy filesystem_id filesystems of
             Inl e \<Rightarrow> Inl e
           | Inr filesystems' \<Rightarrow> manifest_filesystems rest filesystems'))"

fun manifest_virtual_servers ::
  "world \<Rightarrow> json list \<Rightarrow> json list \<Rightarrow> call list \<Rightarrow> (py_exn + json list) \<times> call list" where
  "manifest_virtual_servers w [] virtual_servers cs = (Inr virtual_servers, cs)"
| "manifest_virtual_servers w (filesystem_id # rest) virtual_servers cs =
     (case add_virtual_server w filesystem_id virtual_servers cs of
        (Inl e, cs') \<Rightarrow> (Inl e, cs')
      | (Inr virtual_servers', cs') \<Rightarrow> manifest_virtual_servers w rest virtual_servers' cs')"

text \<open>The test that tells an identifier from a label, the same in both scripts.\<close>

definition looks_like_id :: "string \<Rightarrow> bool" where
  "looks_like_id s = (length s = 32 \<and> list_all (\<lambda>c. c \<in> set ''0123456789ABCDEFabcdef'') s)"

text \<open>The fallback: the entries of \<^verbatim>\<open>HNAS_FILESYSTEMS\<close>, one at a time.\<close>

fun env_targets ::
  "world \<Rightarrow> string list \<Rightarrow> json list \<Rightarrow> json list \<Rightarrow> call list
   \<Rightarrow> (py_exn + json list \<times> json list) \<times> call list" where
  "env_targets w [] filesystems virtual_servers cs = (Inr (filesystems, virtual_servers), cs)"
| "env_targets w (raw # rest) filesystems virtual_servers cs =
     (let fs_input = strip raw
      in if fs_input = [] then env_targets w rest filesystems virtual_servers cs
         else if looks_like_id fs_input then
           (case add_virtual_server w (JStr fs_input) virtual_servers cs of
              (Inl e, cs') \<Rightarrow> (Inl e, cs')
            | (Inr virtual_servers', cs') \<Rightarrow>
                env_targets w rest (set_insert (JStr fs_input) filesystems) virtual_servers' cs')
         else
           (case get_filesystem_by_name w fs_input cs of
              (None, cs') \<Rightarrow> env_targets w rest filesystems virtual_servers cs'
            | (Some fs_info, cs') \<Rightarrow>
                (if truthy fs_info then
                   (case obj_get fs_info ''filesystemId'' JNull of
                      Inl e \<Rightarrow> (Inl e, cs')
                    | Inr filesystem_id \<Rightarrow>
                   (case obj_get fs_info ''virtualServerId'' JNull of
                      Inl e \<Rightarrow> (Inl e, cs')
                    | Inr vs_id \<Rightarrow>
                   (case add_if_truthy filesystem_id filesystems of
                      Inl e \<Rightarrow> (Inl e, cs')
                    | Inr filesystems' \<Rightarrow>
                   (case add_if_truthy vs_id virtual_servers of
                      Inl e \<Rightarrow> (Inl e, cs')
                    | Inr virtual_servers' \<Rightarrow>
                        env_targets w rest filesystems' virtual_servers' cs'))))
                 else env_targets w rest filesystems virtual_servers cs')))"

definition sweep_targets ::
  "world \<Rightarrow> environ \<Rightarrow> json \<Rightarrow> call list \<Rightarrow> (py_exn + json list \<times> json list) \<times> call list" where
  "sweep_targets w env created_snapshots cs =
     (if truthy created_snapshots then
        (case py_iter created_snapshots of
           Inl e \<Rightarrow> (Inl e, cs)
         | Inr snaps \<Rightarrow>
             (case manifest_filesystems snaps [] of
                Inl e \<Rightarrow> (Inl e, cs)
              | Inr filesystems \<Rightarrow>
                  (case manifest_virtual_servers w (hash_order w filesystems) [] cs of
                     (Inl e, cs') \<Rightarrow> (Inl e, cs')
                   | (Inr virtual_servers, cs') \<Rightarrow> (Inr (filesystems, virtual_servers), cs'))))
      else env_targets w (split_on CHR '','' (getenv env ''HNAS_FILESYSTEMS'' [])) [] [] cs)"

subsection \<open>The main function of the post-phase\<close>

fun sweep_snapshots ::
  "world \<Rightarrow> string \<Rightarrow> int \<Rightarrow> json list \<Rightarrow> call list \<times> log list \<Rightarrow> call list \<times> log list" where
  "sweep_snapshots w app days [] st = st"
| "sweep_snapshots w app days (filesystem_id # rest) (cs, logs) =
     (let (cleanup_count, cs', logs') = cleanup_old_snapshots w filesystem_id app days cs
      in sweep_snapshots w app days rest (cs', logs @ logs'))"

fun sweep_shares ::
  "world \<Rightarrow> string \<Rightarrow> int \<Rightarrow> json list \<Rightarrow> call list \<times> log list \<Rightarrow> call list \<times> log list" where
  "sweep_shares w prefix days [] st = st"
| "sweep_shares w prefix days (virtual_server_id # rest) (cs, logs) =
     (let (cleanup_count, cs', logs') = cleanup_old_smb_shares w virtual_server_id prefix days cs
      in sweep_shares w prefix days rest (cs', logs @ logs'))"

text \<open>
  The retention block of \<^verbatim>\<open>main\<close>: the targets, then the snapshots of every filesystem,
  then the shares of every virtual server. An exception while the targets are collected is
  not caught.
\<close>

definition retention_sweep ::
  "world \<Rightarrow> environ \<Rightarrow> post_config \<Rightarrow> json \<Rightarrow> call list
   \<Rightarrow> py_exn option \<times> call list \<times> log list" where
  "retention_sweep w env config created_snapshots cs =
     (case sweep_targets w env created_snapshots cs of
        (Inl e, cs1) \<Rightarrow> (Some e, cs1, [])
      | (Inr (filesystems, virtual_servers), cs1) \<Rightarrow>
          (let (cs2, logs2) =
                 sweep_snapshots w (app_search_id config) (retention_days config)
                   (hash_order w filesystems) (cs1, []);
               (cs3, logs3) =
                 sweep_shares w (smb_share_name config) (retention_days config)
                   (hash_order w virtual_servers) (cs2, logs2)
           in (None, cs3, logs3)))"

datatype outcome = Exit nat | Uncaught py_exn

text \<open>The exit status the invoking process sees: an uncaught exception ends Python with 1.\<close>

fun exit_status :: "outcome \<Rightarrow> nat" where
  "exit_status (Exit n) = n"
| "exit_status (Uncaught e) = 1"

text \<open>The line the post-phase prints last.\<close>

datatype post_message =
    MissingConfiguration
  | ConnectionFailed
  | CleanedUp nat
  | Retained

record post_result =
  post_outcome :: outcome
  post_calls :: "call list"
  post_logs :: "log list"
  post_message :: "post_message option"
  manifest_removed :: bool

text \<open>\<^verbatim>\<open>len(x)\<close> is defined for lists, strings and dicts.\<close>

fun sized :: "json \<Rightarrow> bool" where
  "sized (JArr xs) = True"
| "sized (JStr s) = True"
| "sized (JObj kv) = True"
| "sized _ = False"

text \<open>The block guarded by \<^verbatim>\<open>if should_cleanup and created_snapshots\<close>.\<close>

definition session_cleanup ::
  "world \<Rightarrow> post_config \<Rightarrow> bool \<Rightarrow> json \<Rightarrow> call list \<Rightarrow> (py_exn + nat) \<times> call list" where
  "session_cleanup w config backup_success created_snapshots cs =
     (if should_cleanup backup_success config \<and> truthy created_snapshots then
        (case py_iter created_snapshots of
           Inl e \<Rightarrow> (Inl e, cs)
         | Inr entries \<Rightarrow> manifest_cleanup w entries 0 cs)
      else (Inr 0, cs))"

text \<open>
  The part of \<^verbatim>\<open>main\<close> after the connection test. The manifest file is removed when the
  decision is true, the file exists and \<^verbatim>\<open>os.remove\<close> succeeds; a failure of
  \<^verbatim>\<open>os.remove\<close> is caught and logged. The last log line takes \<^verbatim>\<open>len(created_snapshots)\<close>,
  which raises TypeError for a value without a length.
\<close>

definition post_run :: "world \<Rightarrow> environ \<Rightarrow> post_config \<Rightarrow> bool \<Rightarrow> call list \<Rightarrow> post_result" where
  "post_run w env config backup_success cs0 =
     (let created_snapshots = load_manifest (manifest_file w);
          (session, cs1) = session_cleanup w config backup_success created_snapshots cs0
      in case session of
           Inl e \<Rightarrow>
             \<lparr>post_outcome = Uncaught e, post_calls = cs1, post_logs = [],
              post_message = None, manifest_removed = False\<rparr>
         | Inr deleted_count \<Rightarrow>
             (let (raised, cs2, logs) =
                    (if retention_days config > 0
                     then retention_sweep w env config created_snapshots cs1
                     else (None, cs1, []))
              in case raised of
                   Some e \<Rightarrow>
                     \<lparr>post_outcome = Uncaught e, post_calls = cs2, post_logs = logs,
                      post_message = None, manifest_removed = False\<rparr>
                 | None \<Rightarrow>
                     (let removed = (should_cleanup backup_success config
                                     \<and> manifest_file w \<noteq> NoFile \<and> remove_succeeds w)
                      in if sized created_snapshots then
                           \<lparr>post_outcome = Exit 0, post_calls = cs2, post_logs = logs,
                            post_message =
                              Some (if should_cleanup backup_success config
                                    then CleanedUp deleted_count else Retained),
                            manifest_removed = removed\<rparr>
                         else
                           \<lparr>post_outcome = Uncaught TypeError, post_calls = cs2,
                            post_logs = logs, post_message = None,
                            manifest_removed = removed\<rparr>)))"

definition post_main :: "environ \<Rightarrow> world \<Rightarrow> post_result" where
  "post_main env w =
     (let (backup_success, result) = validate_backup_result env
      in case post_configuration env of
           Inl e \<Rightarrow>
             \<lparr>post_outcome = Uncaught e, post_calls = [], post_logs = [],
              post_message = None, manifest_removed = False\<rparr>
         | Inr config \<Rightarrow>
             (if \<not> (hnas_host config \<noteq> [] \<and> username config \<noteq> [] \<and> password config \<noteq> [])
              then \<lparr>post_outcome = Exit 1, post_calls = [], post_logs = [],
                    post_message = Some MissingConfiguration, manifest_removed = False\<rparr>
              else (let (connected, cs0) = test_connection w []
                    in if \<not> connected
                       then \<lparr>post_outcome = Exit 1, post_calls = cs0, post_logs = [],
                             post_message = Some ConnectionFailed, manifest_removed = False\<rparr>
                       else post_run w env config backup_success cs0)))"

section \<open>The pre-phase\<close>

subsection \<open>Text of a value inside an f-string\<close>

fun show_nat :: "nat \<Rightarrow> string" where
  "show_nat n = (if n < 10 then [digit_char n] else show_nat (n div 10) @ [digit_char n])"

definition show_int :: "int \<Rightarrow> string" where
  "show_int i = (if i < 0 then CHR ''-'' # show_nat (nat (- i)) else show_nat (nat i))"

definition py_format :: "world \<Rightarrow> json \<Rightarrow> string" where
  "py_format w v =
     (case v of
        JStr s \<Rightarrow> s
      | JInt i \<Rightarrow> show_int i
      | JBool b \<Rightarrow> (if b then ''True'' else ''False'')
      | JNull \<Rightarrow> ''None''
      | _ \<Rightarrow> py_repr w v)"

subsection \<open>Create operations\<close>

definition create_snapshot ::
  "world \<Rightarrow> json \<Rightarrow> string \<Rightarrow> string \<Rightarrow> int option \<Rightarrow> call list \<Rightarrow> json option \<times> call list" where
  "create_snapshot w filesystem_id snapshot_name search_id interval cs =
     (let app = (if search_id \<noteq> [] then Some search_id else None);
          retention = (case interval of
                         None \<Rightarrow> None
                       | Some n \<Rightarrow> (if n \<noteq> 0 then Some n else None));
          (r, cs') = request w (CreateSnapshot filesystem_id snapshot_name app retention) cs
      in ((case response_json r of
             Inl _ \<Rightarrow> None
           | Inr snapshot_info \<Rightarrow>
               (case obj_get snapshot_info ''snapshot'' (JObj []) of
                  Inl _ \<Rightarrow> None
                | Inr snapshot \<Rightarrow>
                    (case obj_get snapshot ''displayName'' (JStr snapshot_name) of
                       Inl _ \<Rightarrow> None
                     | Inr _ \<Rightarrow> Some snapshot))), cs'))"

definition backslash :: char where
  "backslash = CHR 0x5C"

text \<open>
  The share name carries a clock reading of its own. The comment field of the request (a
  second clock reading) is left out of the recorded call.
\<close>

definition create_smb_share ::
  "world \<Rightarrow> json \<Rightarrow> string \<Rightarrow> string \<Rightarrow> call list \<Rightarrow> json option \<times> call list" where
  "create_smb_share w filesystem_id snapshot_name share_name cs =
     (let (fs_info, cs1) = get_filesystem_info w filesystem_id cs
      in case fs_info of
           None \<Rightarrow> (None, cs1)
         | Some j \<Rightarrow>
             (if \<not> truthy j then (None, cs1)
              else (case virtual_server_of j of
                      Inl _ \<Rightarrow> (None, cs1)
                    | Inr virtual_server_id \<Rightarrow>
                        (if \<not> truthy virtual_server_id then (None, cs1)
                         else (let timestamp = strftime (clock w cs1);
                                   unique_share_name = share_name @ ''_'' @ timestamp;
                                   snapshot_path =
                                     [backslash] @ ''.snapshot'' @ [backslash] @ snapshot_name;
                                   (r, cs2) =
                                     request w (CreateShare filesystem_id virtual_server_id
                                                  unique_share_name snapshot_path) cs1
                               in ((case response_json r of
                                      Inl _ \<Rightarrow> None
                                    | Inr share_info \<Rightarrow>
                                        (case obj_get share_info ''filesystemShare'' (JObj []) of
                                           Inl _ \<Rightarrow> None
                                         | Inr v \<Rightarrow> Some v)), cs2))))))"

subsection \<open>The main function of the pre-phase\<close>

record pre_config = hnas_config +
  filesystems :: "string list"
  retention_interval :: int
  create_share :: bool

definition pre_configuration :: "environ \<Rightarrow> py_exn + pre_config" where
  "pre_configuration env =
     (case py_int (getenv env ''HNAS_RETENTION_INTERVAL'' ''0'') of
        None \<Rightarrow> Inl ValueError
      | Some interval \<Rightarrow>
          Inr \<lparr>hnas_host = getenv env ''HNAS_HOST'' [],
               username = getenv env ''HNAS_USERNAME'' [],
               password = getenv env ''HNAS_PASSWORD'' [],
               verify_ssl = (lower (getenv env ''HNAS_VERIFY_SSL'' ''false'') = ''true''),
               app_search_id = getenv env ''HNAS_APP_SEARCH_ID'' ''veeam'',
               smb_share_name = getenv env ''HNAS_SMB_SHARE_NAME'' ''VeeamNASBackup'',
               filesystems = split_on CHR '','' (getenv env ''HNAS_FILESYSTEMS'' []),
               retention_interval = interval,
               create_share =
                 (lower (getenv env ''HNAS_CREATE_SMB_SHARE'' ''true'') = ''true'')\<rparr>)"

text \<open>
  Resolving one reference (the \<^verbatim>\<open>if\<close>/\<^verbatim>\<open>else\<close> at the head of the loop body): the result is
  the identifier and the label, or \<open>None\<close> when the loop goes on to the next reference.
\<close>

definition resolve_reference ::
  "world \<Rightarrow> string \<Rightarrow> call list \<Rightarrow> (py_exn + (json \<times> json) option) \<times> call list" where
  "resolve_reference w filesystem_input cs =
     (if looks_like_id filesystem_input then
        (let filesystem_id = JStr filesystem_input;
             (fs_info, cs') = get_filesystem_info w filesystem_id cs
         in case fs_info of
              None \<Rightarrow> (Inr None, cs')
            | Some j \<Rightarrow>
                (if \<not> truthy j then (Inr None, cs')
                 else (case obj_get j ''filesystem'' (JObj []) of
                         Inl e \<Rightarrow> (Inl e, cs')
                       | Inr f \<Rightarrow>
                           (case obj_get f ''label'' filesystem_id of
                              Inl e \<Rightarrow> (Inl e, cs')
                            | Inr filesystem_name \<Rightarrow>
                                (Inr (Some (filesystem_id, filesystem_name)), cs')))))
      else
        (let (fs_info, cs') = get_filesystem_by_name w filesystem_input cs
         in case fs_info of
              None \<Rightarrow> (Inr None, cs')
            | Some j \<Rightarrow>
                (if \<not> truthy j then (Inr None, cs')
                 else (case obj_get j ''filesystemId'' JNull of
                         Inl e \<Rightarrow> (Inl e, cs')
                       | Inr filesystem_id \<Rightarrow>
                           (case obj_get j ''label'' (JStr filesystem_input) of
                              Inl e \<Rightarrow> (Inl e, cs')
                            | Inr filesystem_name \<Rightarrow>
                                (if \<not> truthy filesystem_id then (Inr None, cs')
                                 else (Inr (Some (filesystem_id, filesystem_name)), cs')))))))"

definition snapshot_name_of :: "world \<Rightarrow> pre_config \<Rightarrow> json \<Rightarrow> string \<Rightarrow> string" where
  "snapshot_name_of w config filesystem_name timestamp =
     (if app_search_id config \<noteq> []
      then app_search_id config @ ''_'' @ py_format w filesystem_name @ ''_'' @ timestamp
      else ''veeam_'' @ py_format w filesystem_name @ ''_'' @ timestamp)"

text \<open>The manifest entry of a created snapshot (the dict \<^verbatim>\<open>snapshot_info\<close>).\<close>

definition snapshot_record ::
  "pre_config \<Rightarrow> json \<Rightarrow> json \<Rightarrow> string \<Rightarrow> (string \<times> json) list \<Rightarrow> (string \<times> json) list" where
  "snapshot_record config filesystem_id filesystem_name snapshot_name snapshot =
     [(''filesystem_id'', filesystem_id),
      (''filesystem_name'', filesystem_name),
      (''snapshot_name'', JStr snapshot_name),
      (''snapshot_object_id'', dict_get snapshot ''objectId'' (JStr [])),
      (''creation_time'', dict_get snapshot ''creationTime'' (JStr [])),
      (''app_search_id'', JStr (app_search_id config))]"

text \<open>
  The keys that \<^verbatim>\<open>snapshot_info.update\<close> adds when a share was created
  (\<^verbatim>\<open>if smb_share:\<close>); a share descriptor that is not a dict raises AttributeError.
\<close>

definition share_fields :: "json option \<Rightarrow> py_exn + (string \<times> json) list" where
  "share_fields smb_share =
     (case smb_share of
        None \<Rightarrow> Inr []
      | Some sh \<Rightarrow>
          (if \<not> truthy sh then Inr []
           else (case sh of
                   JObj skv \<Rightarrow>
                     Inr [(''smb_share_name'', dict_get skv ''name'' (JStr [])),
                          (''smb_share_object_id'', dict_get skv ''objectId'' (JStr [])),
                          (''smb_share_path'', dict_get skv ''path'' (JStr []))]
                 | _ \<Rightarrow> Inl AttributeError)))"

text \<open>The rest of the loop body, for a resolved reference.\<close>

definition snapshot_one ::
  "world \<Rightarrow> pre_config \<Rightarrow> string \<Rightarrow> json \<Rightarrow> json \<Rightarrow> call list
   \<Rightarrow> (py_exn + json option) \<times> call list" where
  "snapshot_one w config timestamp filesystem_id filesystem_name cs =
     (let snapshot_name = snapshot_name_of w config filesystem_name timestamp;
          (snapshot, cs1) =
            create_snapshot w filesystem_id snapshot_name (app_search_id config)
              (if retention_interval config > 0 then Some (retention_interval config) else None)
              cs
      in case snapshot of
           None \<Rightarrow> (Inr None, cs1)
         | Some sn \<Rightarrow>
             (if \<not> truthy sn then (Inr None, cs1)
              else (case sn of
                      JObj kv \<Rightarrow>
                        (let snapshot_info =
                               snapshot_record config filesystem_id filesystem_name
                                 snapshot_name kv
                         in if create_share config then
                              (let (smb_share, cs2) =
                                     create_smb_share w filesystem_id snapshot_name
                                       (smb_share_name config) cs1
                               in case share_fields smb_share of
                                    Inl e \<Rightarrow> (Inl e, cs2)
                                  | Inr share_keys \<Rightarrow>
                                      (Inr (Some (JObj (snapshot_info @ share_keys))), cs2))
                            else (Inr (Some (JObj snapshot_info)), cs1))
                    | _ \<Rightarrow> (Inl AttributeError, cs1))))"

fun snapshot_filesystems ::
  "world \<Rightarrow> pre_config \<Rightarrow> string \<Rightarrow> string list \<Rightarrow> json list \<Rightarrow> call list
   \<Rightarrow> (py_exn + json list) \<times> call list" where
  "snapshot_filesystems w config timestamp [] created_snapshots cs = (Inr created_snapshots, cs)"
| "snapshot_filesystems w config timestamp (raw # rest) created_snapshots cs =
     (let filesystem_input = strip raw
      in if filesystem_input = []
         then snapshot_filesystems w config timestamp rest created_snapshots cs
         else (case resolve_reference w filesystem_input cs of
                 (Inl e, cs1) \<Rightarrow> (Inl e, cs1)
               | (Inr None, cs1) \<Rightarrow>
                   snapshot_filesystems w config timestamp rest created_snapshots cs1
               | (Inr (Some (filesystem_id, filesystem_name)), cs1) \<Rightarrow>
                   (case snapshot_one w config timestamp filesystem_id filesystem_name cs1 of
                      (Inl e, cs2) \<Rightarrow> (Inl e, cs2)
                    | (Inr None, cs2) \<Rightarrow>
                        snapshot_filesystems w config timestamp rest created_snapshots cs2
                    | (Inr (Some snapshot_info), cs2) \<Rightarrow>
                        snapshot_filesystems w config timestamp rest
                          (created_snapshots @ [snapshot_info]) cs2)))"

record pre_result =
  pre_outcome :: outcome
  pre_calls :: "call list"
  manifest_written :: "(string \<times> json) option"

definition default_snapshot_info_file :: string where
  "default_snapshot_info_file =
     ''C:'' @ [backslash] @ ''VeeamScripts'' @ [backslash] @ ''hnas_snapshot_info.json''"

text \<open>
  The output stage: \<^verbatim>\<open>os.makedirs(os.path.dirname(file), exist_ok=True)\<close> raises
  FileNotFoundError when the path has no directory part (\<^verbatim>\<open>os.makedirs('')\<close>), and
  OSError when the directory or the file cannot be written; neither is caught. Then the
  manifest is written, and the exit status follows the number of snapshots.
\<close>

definition write_manifest ::
  "world \<Rightarrow> environ \<Rightarrow> pre_config \<Rightarrow> string \<Rightarrow> json list \<Rightarrow> call list \<Rightarrow> pre_result" where
  "write_manifest w env config timestamp created_snapshots cs =
     (let snapshot_info_file = getenv env ''VEEAM_SNAPSHOT_INFO'' default_snapshot_info_file
      in if os_path_dirname w snapshot_info_file = [] then
           \<lparr>pre_outcome = Uncaught FileNotFoundError, pre_calls = cs, manifest_written = None\<rparr>
         else if \<not> manifest_writable w then
           \<lparr>pre_outcome = Uncaught OSError, pre_calls = cs, manifest_written = None\<rparr>
         else
           \<lparr>pre_outcome = (if length created_snapshots = 0 then Exit 1 else Exit 0),
            pre_calls = cs,
            manifest_written =
              Some (snapshot_info_file,
                    JObj [(''timestamp'', JStr timestamp),
                          (''snapshots'', JArr created_snapshots),
                          (''config'', JObj [(''hnas_host'', JStr (hnas_host config)),
                                             (''app_search_id'', JStr (app_search_id config))])])\<rparr>)"

definition pre_main :: "environ \<Rightarrow> world \<Rightarrow> pre_result" where
  "pre_main env w =
     (case pre_configuration env of
        Inl e \<Rightarrow> \<lparr>pre_outcome = Uncaught e, pre_calls = [], manifest_written = None\<rparr>
      | Inr config \<Rightarrow>
          (if \<not> (hnas_host config \<noteq> [] \<and> username config \<noteq> [] \<and> password config \<noteq> [])
           then \<lparr>pre_outcome = Exit 1, pre_calls = [], manifest_written = None\<rparr>
           else if filesystems config = [] \<or> filesystems config = [[]]
           then \<lparr>pre_outcome = Exit 1, pre_calls = [], manifest_written = None\<rparr>
           else (let (connected, cs0) = test_connection w []
                 in if \<not> connected
                    then \<lparr>pre_outcome = Exit 1, pre_calls = cs0, manifest_written = None\<rparr>
                    else (let timestamp = strftime (clock w cs0)
                          in case snapshot_filesystems w config timestamp
                                    (filesystems config) [] cs0 of
                               (Inl e, cs1) \<Rightarrow>
                                 \<lparr>pre_outcome = Uncaught e, pre_calls = cs1,
                                  manifest_written = None\<rparr>
                             | (Inr created_snapshots, cs1) \<Rightarrow>
                                 write_manifest w env config timestamp created_snapshots cs1))))"

section \<open>Notions used in the statements\<close>

subsection \<open>Reading one entry of a listing\<close>

text \<open>The object identifier of a listed snapshot or share (\<^verbatim>\<open>x.get('objectId')\<close>).\<close>

definition object_id :: "json \<Rightarrow> json" where
  "object_id x = (case x of JObj kv \<Rightarrow> dict_get kv ''objectId'' JNull | _ \<Rightarrow> JNull)"

text \<open>
  The creation time of a listed snapshot as the sweep reads it: the field
  \<^verbatim>\<open>creationTime\<close>, 0 when the field is absent, normalised.
\<close>

definition creation_epoch :: "json \<Rightarrow> creation_time" where
  "creation_epoch x =
     (case x of
        JObj kv \<Rightarrow> normalize_creation_time (dict_get kv ''creationTime'' (JInt 0))
      | _ \<Rightarrow> Incomparable)"

text \<open>
  A listing entry the sweep can read without an exception: a dict whose creation time, when
  present, is an integer, a boolean or a string.
\<close>

definition readable_snapshot :: "json \<Rightarrow> bool" where
  "readable_snapshot x = (creation_epoch x \<noteq> Incomparable)"

text \<open>
  The retention rule for snapshots: due for deletion when the normalised creation time is
  strictly before the cutoff and the entry carries a non-empty object identifier.
\<close>

definition due_snapshot :: "int \<Rightarrow> json \<Rightarrow> bool" where
  "due_snapshot cutoff x =
     (case creation_epoch x of
        Epoch t \<Rightarrow> t < cutoff \<and> truthy (object_id x)
      | _ \<Rightarrow> False)"





text \<open>The calls of one kind in a call history.\<close>

fun is_delete_snapshot :: "call \<Rightarrow> bool" where
  "is_delete_snapshot (DeleteSnapshot i) = True"
| "is_delete_snapshot _ = False"

fun is_delete_share :: "call \<Rightarrow> bool" where
  "is_delete_share (DeleteShare i) = True"
| "is_delete_share _ = False"


fun is_create_snapshot :: "call \<Rightarrow> bool" where
  "is_create_snapshot (CreateSnapshot f n a r) = True"
| "is_create_snapshot _ = False"



text \<open>The display name sent with a snapshot-create call.\<close>

fun display_name :: "call \<Rightarrow> string" where
  "display_name (CreateSnapshot f n a r) = n"
| "display_name _ = []"

subsection \<open>An example array and environment\<close>

text \<open>\<^verbatim>\<open>posixpath.dirname\<close>: everything up to the last slash, without trailing slashes.\<close>

definition posix_dirname :: "string \<Rightarrow> string" where
  "posix_dirname p =
     (let head = rev (dropWhile (\<lambda>c. c \<noteq> CHR ''/'') (rev p))
      in if head \<noteq> [] \<and> \<not> list_all (\<lambda>c. c = CHR ''/'') head
         then rev (dropWhile (\<lambda>c. c = CHR ''/'') (rev head))
         else head)"

definition example_now :: datetime where
  "example_now = \<lparr>year = 2024, month = 1, day = 15, hour = 3, minute = 0, second = 0,
                    microsecond = 250000\<rparr>"

definition example_cutoff_date :: datetime where
  "example_cutoff_date = \<lparr>year = 2024, month = 2, day = 1, hour = 0, minute = 0, second = 0,
                            microsecond = 0\<rparr>"

definition example_filesystems :: "json list" where
  "example_filesystems =
     [JObj [(''filesystemId'', JStr ''A1''), (''label'', JStr ''fs-alpha''),
            (''virtualServerId'', JStr ''vs1'')],
      JObj [(''filesystemId'', JStr ''B2''), (''label'', JStr ''fs-beta''),
            (''virtualServerId'', JStr ''vs2'')]]"

definition example_snapshots :: "json list" where
  "example_snapshots =
     [JObj [(''objectId'', JStr ''s-old''), (''creationTime'', JInt 999)],
      JObj [(''objectId'', JStr ''s-edge''), (''creationTime'', JInt 1000)],
      JObj [(''objectId'', JStr ''s-text''), (''creationTime'', JStr ''998'')],
      JObj [(''objectId'', JStr ''s-bad''), (''creationTime'', JStr ''yesterday'')],
      JObj [(''objectId'', JStr ''s-none'')],
      JObj [(''creationTime'', JInt 5)]]"

definition example_shares :: "json list" where
  "example_shares =
     [JObj [(''name'', JStr ''VeeamNASBackup_20240115_030000''), (''objectId'', JStr ''sh-old'')],
      JObj [(''name'', JStr ''VeeamNASBackup_bad''), (''objectId'', JStr ''sh-bad'')],
      JObj [(''name'', JStr ''VeeamNASBackup_2024_x''), (''objectId'', JStr ''sh-x'')],
      JObj [(''name'', JStr ''VeeamNASBackup_20240301_000000''), (''objectId'', JStr ''sh-new'')],
      JObj [(''name'', JStr ''Archive_20200101_000000''), (''objectId'', JStr ''sh-other'')]]"

fun example_array :: "call \<Rightarrow> http_result" where
  "example_array Probe = Response 200 (Some (JObj [(''name'', JStr ''hnas-1'')]))"
| "example_array ListFilesystems =
     Response 200 (Some (JObj [(''filesystems'', JArr example_filesystems)]))"
| "example_array (GetFilesystem i) =
     Response 200 (Some (JObj [(''filesystem'',
        JObj [(''label'', JStr ''fs-gamma''), (''virtualServerId'', JStr ''vs1'')])]))"
| "example_array (ListSnapshots i a) =
     Response 200 (Some (JObj [(''snapshots'', JArr example_snapshots)]))"
| "example_array (ListShares v) =
     Response 200 (Some (JObj [(''filesystemShares'', JArr example_shares)]))"
| "example_array (DeleteSnapshot i) = Response 204 None"
| "example_array (DeleteShare i) = Response 404 None"
| "example_array (CreateSnapshot f n a r) =
     Response 201 (Some (JObj [(''snapshot'',
        JObj [(''objectId'', JStr ''snap-1''), (''displayName'', JStr n),
              (''creationTime'', JInt 1705287600)])]))"
| "example_array (CreateShare f v n p) =
     Response 201 (Some (JObj [(''filesystemShare'',
        JObj [(''name'', JStr n), (''objectId'', JStr ''share-1''), (''path'', JStr p)])]))"

definition example_world :: world where
  "example_world =
     \<lparr>remote = (\<lambda>history c. example_array c),
      clock = (\<lambda>history. example_now),
      epoch_cutoff = (\<lambda>history days. Some 1000),
      date_cutoff = (\<lambda>history days. Some example_cutoff_date),
      manifest_file = NoFile,
      remove_succeeds = True,
      os_path_dirname = posix_dirname,
      manifest_writable = True,
      hash_order = (\<lambda>xs. xs),
      py_repr = (\<lambda>v. ''?'')\<rparr>"

text \<open>The same machine in front of an array that answers every call with one result.\<close>

definition world_answering :: "http_result \<Rightarrow> world" where
  "world_answering r = example_world\<lparr>remote := (\<lambda>history c. r)\<rparr>"

definition example_env :: environ where
  "example_env =
     map_of [(''HNAS_HOST'', ''hnas.example.org''),
             (''HNAS_USERNAME'', ''apikey''),
             (''HNAS_PASSWORD'', ''secret''),
             (''HNAS_FILESYSTEMS'', ''fs-alpha, fs-beta''),
             (''HNAS_APP_SEARCH_ID'', ''veeam''),
             (''VEEAM_SNAPSHOT_INFO'', ''/var/veeam/hnas_snapshot_info.json''),
             (''VEEAM_JOB_RESULT'', ''Failed''),
             (''HNAS_CLEANUP_ON_FAILURE'', ''false'')]"

text \<open>
  A post-phase run after a backup that ended with a warning, with cleanup on success enabled
  and the retention sweep switched off.
\<close>

definition warning_env :: environ where
  "warning_env =
     example_env(''VEEAM_JOB_RESULT'' \<mapsto> ''Warning'', ''HNAS_CLEANUP_ON_SUCCESS'' \<mapsto> ''TRUE'',
                 ''HNAS_RETENTION_DAYS'' \<mapsto> ''0'')"

definition warning_config :: post_config where
  "warning_config =
     \<lparr>hnas_host = ''hnas.example.org'', username = ''apikey'', password = ''secret'',
      verify_ssl = False, app_search_id = ''veeam'', smb_share_name = ''VeeamNASBackup'',
      cleanup_on_success = True, cleanup_on_failure = False, retention_days = 0\<rparr>"

definition stale_manifest_world :: world where
  "stale_manifest_world = example_world\<lparr>manifest_file := Unreadable\<rparr>"

text \<open>The manifest of a pre-phase run that created one snapshot and one share.\<close>

definition example_manifest :: json where
  "example_manifest =
     JObj [(''timestamp'', JStr ''20240115_030000''),
           (''snapshots'',
            JArr [JObj [(''filesystem_id'', JStr ''A1''),
                        (''filesystem_name'', JStr ''fs-alpha''),
                        (''snapshot_name'', JStr ''veeam_fs-alpha_20240115_030000''),
                        (''snapshot_object_id'', JStr ''snap-1''),
                        (''creation_time'', JInt 1705287600),
                        (''app_search_id'', JStr ''veeam''),
                        (''smb_share_name'', JStr ''VeeamNASBackup_20240115_030000''),
                        (''smb_share_object_id'', JStr ''share-1'')]]),
           (''config'', JObj [(''hnas_host'', JStr ''hnas.example.org''),
                              (''app_search_id'', JStr ''veeam'')])]"

definition manifest_world :: world where
  "manifest_world = example_world\<lparr>manifest_file := Document example_manifest\<rparr>"

text \<open>A post-phase run after a failed backup, cleanup on failure and the sweep switched off.\<close>

definition failed_env :: environ where
  "failed_env = example_env(''HNAS_RETENTION_DAYS'' \<mapsto> ''0'')"

definition failed_config :: post_config where
  "failed_config =
     \<lparr>hnas_host = ''hnas.example.org'', username = ''apikey'', password = ''secret'',
      verify_ssl = False, app_search_id = ''veeam'', smb_share_name = ''VeeamNASBackup'',
      cleanup_on_success = False, cleanup_on_failure = False, retention_days = 0\<rparr>"


text \<open>Arrays whose listings hold a single entry.\<close>

definition anonymous_snapshot :: json where
  "anonymous_snapshot = JObj [(''creationTime'', JInt 5)]"

definition anonymous_snapshot_world :: world where
  "anonymous_snapshot_world =
     world_answering (Response 200 (Some (JObj [(''snapshots'', JArr [anonymous_snapshot])])))"




text \<open>The configuration the pre-phase reads from the example environment.\<close>

definition example_pre_config :: pre_config where
  "example_pre_config =
     \<lparr>hnas_host = ''hnas.example.org'', username = ''apikey'', password = ''secret'',
      verify_ssl = False, app_search_id = ''veeam'', smb_share_name = ''VeeamNASBackup'',
      filesystems = [''fs-alpha'', '' fs-beta''], retention_interval = 0,
      create_share = True\<rparr>"

text \<open>The same environment with a manifest path that is a bare file name.\<close>

definition bare_path_env :: environ where
  "bare_path_env = example_env(''VEEAM_SNAPSHOT_INFO'' \<mapsto> ''hnas_snapshot_info.json'')"

text \<open>The calls of the example pre-phase run.\<close>

definition example_share_path :: "string \<Rightarrow> string" where
  "example_share_path snapshot_name = [backslash] @ ''.snapshot'' @ [backslash] @ snapshot_name"

definition example_pre_calls :: "call list" where
  "example_pre_calls =
     [Probe,
      ListFilesystems,
      CreateSnapshot (JStr ''A1'') ''veeam_fs-alpha_20240115_030000'' (Some ''veeam'') None,
      GetFilesystem (JStr ''A1''),
      CreateShare (JStr ''A1'') (JStr ''vs1'') ''VeeamNASBackup_20240115_030000''
        (example_share_path ''veeam_fs-alpha_20240115_030000''),
      ListFilesystems,
      CreateSnapshot (JStr ''B2'') ''veeam_fs-beta_20240115_030000'' (Some ''veeam'') None,
      GetFilesystem (JStr ''B2''),
      CreateShare (JStr ''B2'') (JStr ''vs1'') ''VeeamNASBackup_20240115_030000''
        (example_share_path ''veeam_fs-beta_20240115_030000'')]"

section \<open>Properties\<close>

subsection \<open>Delete operations\<close>

lemma delete_outcome_Response:
  "delete_outcome (Response s b) = (s = 404 \<or> \<not> (400 \<le> s \<and> s < 600))"
  by (auto simp add: delete_outcome_def raise_for_status_def)

lemma delete_outcome_NoResponse: "delete_outcome NoResponse = False"
  by (simp add: delete_outcome_def raise_for_status_def)

lemma delete_snapshot_eq:
  "delete_snapshot w i cs =
     (delete_outcome (remote w cs (DeleteSnapshot i)), cs @ [DeleteSnapshot i])"
  by (simp add: delete_snapshot_def request_def)

lemma delete_smb_share_eq:
  "delete_smb_share w i cs =
     (delete_outcome (remote w cs (DeleteShare i)), cs @ [DeleteShare i])"
  by (simp add: delete_smb_share_def request_def)

lemma world_answering_remote: "remote (world_answering r) cs c = r"
  by (simp add: world_answering_def)

subsection \<open>The environment of the post-phase\<close>

lemma getenv_other:
  "name \<noteq> k \<Longrightarrow> getenv (env(k := v)) name d = getenv env name d"
  by (simp add: getenv_def)

lemma validate_backup_result_succeeded:
  "fst (validate_backup_result env)
     = (getenv env ''VEEAM_JOB_RESULT'' ''Unknown'' = ''Success''
        \<or> getenv env ''VEEAM_JOB_RESULT'' ''Unknown'' = ''Warning'')"
  by (simp add: validate_backup_result_def Let_def)

lemma validate_backup_result_session:
  "validate_backup_result (env(''VEEAM_SESSION_RESULT'' := v)) = validate_backup_result env"
  by (simp add: validate_backup_result_def getenv_other Let_def)

lemma post_configuration_session:
  "post_configuration (env(''VEEAM_SESSION_RESULT'' := v)) = post_configuration env"
  by (simp add: post_configuration_def getenv_other cong: option.case_cong)

lemma sweep_targets_session:
  "sweep_targets w (env(''VEEAM_SESSION_RESULT'' := v)) created cs
     = sweep_targets w env created cs"
  by (simp add: sweep_targets_def getenv_other)

lemma retention_sweep_session:
  "retention_sweep w (env(''VEEAM_SESSION_RESULT'' := v)) config created cs
     = retention_sweep w env config created cs"
  by (simp add: retention_sweep_def sweep_targets_session)

lemma post_run_session:
  "post_run w (env(''VEEAM_SESSION_RESULT'' := v)) config b cs = post_run w env config b cs"
  unfolding post_run_def retention_sweep_session by (rule refl)

lemma post_main_reaches_run:
  assumes "post_outcome (post_main env w) = Exit 0"
  shows "\<exists>config. post_configuration env = Inr config
           \<and> post_main env w
               = post_run w env config (fst (validate_backup_result env))
                   (snd (test_connection w []))"
  using assms
  by (auto simp add: post_main_def Let_def split: prod.splits sum.splits if_splits)

lemma post_main_run:
  assumes "post_configuration env = Inr config"
    and "hnas_host config \<noteq> []" and "username config \<noteq> []" and "password config \<noteq> []"
    and "fst (test_connection w [])"
  shows "post_main env w
           = post_run w env config (fst (validate_backup_result env)) (snd (test_connection w []))"
  using assms
  by (cases "test_connection w []"; cases "validate_backup_result env") (simp add: post_main_def)

lemma example_test_connection:
  "test_connection (example_world\<lparr>manifest_file := m\<rparr>) [] = (True, [Probe])"
  by (simp add: test_connection_def request_def example_world_def response_json_def
        raise_for_status_def)

lemma warning_configuration: "post_configuration warning_env = Inr warning_config"
  by code_simp

subsection \<open>The snapshot sweep\<close>

lemma readable_snapshot_cases:
  assumes "readable_snapshot x"
  obtains kv t where "x = JObj kv" and "creation_epoch x = Epoch t"
    | kv where "x = JObj kv" and "creation_epoch x = Unparsable"
  using assms
  by (cases x; cases "creation_epoch x") (auto simp add: readable_snapshot_def creation_epoch_def)

lemma snapshot_loop_step_epoch:
  assumes "creation_epoch (JObj kv) = Epoch t"
  shows "snapshot_loop w cutoff (JObj kv # rest) (n, cs, logs) =
           (if t < cutoff \<and> truthy (object_id (JObj kv))
            then snapshot_loop w cutoff rest
                   (if delete_outcome (remote w cs (DeleteSnapshot (object_id (JObj kv))))
                    then n + 1 else n,
                    cs @ [DeleteSnapshot (object_id (JObj kv))], logs)
            else snapshot_loop w cutoff rest (n, cs, logs))"
  using assms by (simp add: creation_epoch_def object_id_def delete_snapshot_eq)

lemma snapshot_loop_step_unparsable:
  assumes "creation_epoch (JObj kv) = Unparsable"
  shows "snapshot_loop w cutoff (JObj kv # rest) (n, cs, logs) =
           snapshot_loop w cutoff rest (n, cs, logs @ [InvalidCreationTime (JObj kv)])"
  using assms by (simp add: creation_epoch_def)

lemma due_snapshot_epoch:
  "creation_epoch x = Epoch t \<Longrightarrow> due_snapshot cutoff x = (t < cutoff \<and> truthy (object_id x))"
  by (simp add: due_snapshot_def)

lemma due_snapshot_unparsable:
  "creation_epoch x = Unparsable \<Longrightarrow> \<not> due_snapshot cutoff x"
  by (simp add: due_snapshot_def)

lemma snapshot_loop_calls:
  assumes "list_all readable_snapshot snaps"
  shows "fst (snd (snapshot_loop w cutoff snaps (n, cs, logs)))
           = cs @ map (\<lambda>x. DeleteSnapshot (object_id x)) (filter (due_snapshot cutoff) snaps)"
  using assms
proof (induction snaps arbitrary: n cs logs)
  case Nil
  then show ?case by simp
next
  case (Cons x rest)
  from Cons.prems have rx: "readable_snapshot x" and rr: "list_all readable_snapshot rest"
    by simp_all
  note IH = Cons.IH [OF rr]
  from rx show ?case
  proof (cases rule: readable_snapshot_cases)
    case (1 kv t)
    then have e: "creation_epoch (JObj kv) = Epoch t"
      by simp
    show ?thesis
      unfolding \<open>x = JObj kv\<close> snapshot_loop_step_epoch [OF e]
      by (simp del: snapshot_loop.simps add: IH due_snapshot_epoch [OF e])
  next
    case (2 kv)
    then have e: "creation_epoch (JObj kv) = Unparsable"
      by simp
    show ?thesis
      unfolding \<open>x = JObj kv\<close> snapshot_loop_step_unparsable [OF e]
      by (simp del: snapshot_loop.simps add: IH due_snapshot_unparsable [OF e])
  qed
qed

lemma cleanup_old_snapshots_calls:
  assumes "get_filesystem_snapshots w i a cs = (JArr snaps, cs1)"
    and "epoch_cutoff w cs1 days = Some cutoff"
    and "list_all readable_snapshot snaps"
  shows "fst (snd (cleanup_old_snapshots w i a days cs))
           = cs1 @ map (\<lambda>x. DeleteSnapshot (object_id x)) (filter (due_snapshot cutoff) snaps)"
  using assms
  by (simp del: snapshot_loop.simps add: cleanup_old_snapshots_def snapshot_loop_calls)

lemma example_listing:
  "get_filesystem_snapshots example_world i a cs = (JArr example_snapshots, cs @ [ListSnapshots i a])"
  by (simp add: get_filesystem_snapshots_def request_def example_world_def response_json_def
        raise_for_status_def dict_get_def)

lemma example_snapshots_readable: "list_all readable_snapshot example_snapshots"
  by (simp add: example_snapshots_def readable_snapshot_def creation_epoch_def dict_get_def
        split: option.splits)

lemma example_due:
  "filter (due_snapshot 1000) example_snapshots =
     [JObj [(''objectId'', JStr ''s-old''), (''creationTime'', JInt 999)],
      JObj [(''objectId'', JStr ''s-text''), (''creationTime'', JStr ''998'')],
      JObj [(''objectId'', JStr ''s-none'')]]"
  by code_simp

subsection \<open>The share sweep\<close>










subsection \<open>Completed runs of the post-phase\<close>

lemma post_run_completed:
  assumes "post_outcome (post_run w env config b cs) = Exit 0"
  shows "(\<exists>n. post_message (post_run w env config b cs)
                 = Some (if should_cleanup b config then CleanedUp n else Retained))
         \<and> manifest_removed (post_run w env config b cs)
             = (should_cleanup b config \<and> manifest_file w \<noteq> NoFile \<and> remove_succeeds w)"
  using assms
  by (auto simp add: post_run_def Let_def split: prod.splits sum.splits option.splits if_splits)

lemma manifest_run:
  "post_main warning_env manifest_world
     = \<lparr>post_outcome = Exit 0,
        post_calls = [Probe, DeleteShare (JStr ''share-1''), DeleteSnapshot (JStr ''snap-1'')],
        post_logs = [], post_message = Some (CleanedUp 1), manifest_removed = True\<rparr>"
proof -
  have j: "validate_backup_result warning_env = (True, ''Warning'')"
    by (simp add: validate_backup_result_def warning_env_def getenv_def Let_def)
  have t: "test_connection manifest_world [] = (True, [Probe])"
    by (simp add: manifest_world_def example_test_connection)
  have m: "load_manifest (manifest_file manifest_world)
             = JArr [JObj [(''filesystem_id'', JStr ''A1''),
                        (''filesystem_name'', JStr ''fs-alpha''),
                        (''snapshot_name'', JStr ''veeam_fs-alpha_20240115_030000''),
                        (''snapshot_object_id'', JStr ''snap-1''),
                        (''creation_time'', JInt 1705287600),
                        (''app_search_id'', JStr ''veeam''),
                        (''smb_share_name'', JStr ''VeeamNASBackup_20240115_030000''),
                        (''smb_share_object_id'', JStr ''share-1'')]]"
    by (simp add: manifest_world_def load_manifest_def example_manifest_def dict_get_def)
  have r: "remote manifest_world hist c = example_array c" for hist c
    by (simp add: manifest_world_def example_world_def)
  have f: "manifest_file manifest_world \<noteq> NoFile \<and> remove_succeeds manifest_world"
    by (simp add: manifest_world_def example_world_def)
  have "post_main warning_env manifest_world
          = post_run manifest_world warning_env warning_config True [Probe]"
    using post_main_run [OF warning_configuration, of manifest_world]
    by (simp add: warning_config_def j t)
  also have "\<dots> = \<lparr>post_outcome = Exit 0,
        post_calls = [Probe, DeleteShare (JStr ''share-1''), DeleteSnapshot (JStr ''snap-1'')],
        post_logs = [], post_message = Some (CleanedUp 1), manifest_removed = True\<rparr>"
    by (simp add: post_run_def m session_cleanup_def should_cleanup_def warning_config_def
          dict_get_def delete_smb_share_eq delete_snapshot_eq r delete_outcome_Response f)
  finally show ?thesis .
qed

lemma failed_configuration: "post_configuration failed_env = Inr failed_config"
  by code_simp

lemma failed_run:
  "post_main failed_env manifest_world
     = \<lparr>post_outcome = Exit 0, post_calls = [Probe], post_logs = [],
        post_message = Some Retained, manifest_removed = False\<rparr>"
proof -
  have j: "validate_backup_result failed_env = (False, ''Failed'')"
    by (simp add: validate_backup_result_def failed_env_def example_env_def getenv_def Let_def)
  have t: "test_connection manifest_world [] = (True, [Probe])"
    by (simp add: manifest_world_def example_test_connection)
  have m: "\<exists>xs. load_manifest (manifest_file manifest_world) = JArr xs"
    by (simp add: manifest_world_def load_manifest_def example_manifest_def dict_get_def)
  have "post_main failed_env manifest_world
          = post_run manifest_world failed_env failed_config False [Probe]"
    using post_main_run [OF failed_configuration, of manifest_world]
    by (simp add: failed_config_def j t)
  also have "\<dots> = \<lparr>post_outcome = Exit 0, post_calls = [Probe], post_logs = [],
        post_message = Some Retained, manifest_removed = False\<rparr>"
    using m by (auto simp add: post_run_def session_cleanup_def should_cleanup_def
                  failed_config_def)
  finally show ?thesis .
qed

subsection \<open>Resolving a filesystem reference\<close>

lemma get_filesystem_info_eq:
  "get_filesystem_info w i cs
     = ((case response_json (remote w cs (GetFilesystem i)) of Inl e \<Rightarrow> None | Inr j \<Rightarrow> Some j),
        cs @ [GetFilesystem i])"
  by (simp add: get_filesystem_info_def request_def)











lemma example_get_all_filesystems:
  "get_all_filesystems example_world cs = (JArr example_filesystems, cs @ [ListFilesystems])"
  by (simp add: get_all_filesystems_def request_def example_world_def response_json_def
        raise_for_status_def dict_get_def)

lemma example_by_name_beta:
  "get_filesystem_by_name example_world ''fs-beta'' cs
     = (Some (JObj [(''filesystemId'', JStr ''B2''), (''label'', JStr ''fs-beta''),
                    (''virtualServerId'', JStr ''vs2'')]), cs @ [ListFilesystems])"
  by (simp add: get_filesystem_by_name_def example_get_all_filesystems example_filesystems_def
        dict_get_def)




subsection \<open>Snapshot names in the pre-phase\<close>









subsection \<open>Runs of the pre-phase\<close>

lemma test_connection_calls: "snd (test_connection w cs) = cs @ [Probe]"
  by (simp add: test_connection_def request_def)

lemma pre_main_run:
  assumes "pre_configuration env = Inr config"
    and "hnas_host config \<noteq> []" and "username config \<noteq> []" and "password config \<noteq> []"
    and "filesystems config \<noteq> []" and "filesystems config \<noteq> [[]]"
    and "fst (test_connection w [])"
  shows "pre_main env w
           = (case snapshot_filesystems w config (strftime (clock w [Probe]))
                     (filesystems config) [] [Probe] of
                (Inl e, cs1) \<Rightarrow>
                  \<lparr>pre_outcome = Uncaught e, pre_calls = cs1, manifest_written = None\<rparr>
              | (Inr created_snapshots, cs1) \<Rightarrow>
                  write_manifest w env config (strftime (clock w [Probe])) created_snapshots cs1)"
  using assms test_connection_calls [of w "[]"]
  by (cases "test_connection w []") (simp add: pre_main_def Let_def)



lemma bare_path_pre_configuration: "pre_configuration bare_path_env = Inr example_pre_config"
  by code_simp

lemma example_world_parts:
  "remote example_world hist c = example_array c"
  "clock example_world hist = example_now"
  "os_path_dirname example_world = posix_dirname"
  "manifest_writable example_world"
  by (simp_all add: example_world_def)

lemma example_probe: "test_connection example_world [] = (True, [Probe])"
  by (simp add: test_connection_def request_def example_world_parts response_json_def
        raise_for_status_def)

lemma example_timestamp: "strftime example_now = ''20240115_030000''"
  by (simp add: strftime_def pad4_def pad2_def digit_char_def example_now_def)

lemma example_by_name_alpha:
  "get_filesystem_by_name example_world ''fs-alpha'' cs
     = (Some (JObj [(''filesystemId'', JStr ''A1''), (''label'', JStr ''fs-alpha''),
                    (''virtualServerId'', JStr ''vs1'')]), cs @ [ListFilesystems])"
  by (simp add: get_filesystem_by_name_def example_get_all_filesystems example_filesystems_def
        dict_get_def)

lemma example_resolve:
  "resolve_reference example_world ''fs-alpha'' cs
     = (Inr (Some (JStr ''A1'', JStr ''fs-alpha'')), cs @ [ListFilesystems])"
  "resolve_reference example_world ''fs-beta'' cs
     = (Inr (Some (JStr ''B2'', JStr ''fs-beta'')), cs @ [ListFilesystems])"
  by (simp_all add: resolve_reference_def looks_like_id_def example_by_name_alpha
        example_by_name_beta dict_get_def)

lemma example_create_snapshot:
  "create_snapshot example_world i name ''veeam'' None cs
     = (Some (JObj [(''objectId'', JStr ''snap-1''), (''displayName'', JStr name),
                    (''creationTime'', JInt 1705287600)]),
        cs @ [CreateSnapshot i name (Some ''veeam'') None])"
  by (simp add: create_snapshot_def request_def example_world_parts response_json_def
        raise_for_status_def dict_get_def)

lemma example_get_filesystem_info:
  "get_filesystem_info example_world i cs
     = (Some (JObj [(''filesystem'',
          JObj [(''label'', JStr ''fs-gamma''), (''virtualServerId'', JStr ''vs1'')])]),
        cs @ [GetFilesystem i])"
  by (simp add: get_filesystem_info_eq example_world_parts response_json_def
        raise_for_status_def)

lemma example_create_smb_share:
  "create_smb_share example_world i name ''VeeamNASBackup'' cs
     = (Some (JObj [(''name'', JStr ''VeeamNASBackup_20240115_030000''),
                    (''objectId'', JStr ''share-1''),
                    (''path'', JStr (example_share_path name))]),
        cs @ [GetFilesystem i,
              CreateShare i (JStr ''vs1'') ''VeeamNASBackup_20240115_030000''
                (example_share_path name)])"
  by (simp add: create_smb_share_def example_get_filesystem_info virtual_server_of_def
        dict_get_def example_world_parts example_timestamp request_def response_json_def
        raise_for_status_def example_share_path_def Let_def)

lemma example_snapshot_one:
  "\<exists>e. snapshot_one example_world example_pre_config ''20240115_030000'' i (JStr l) cs
     = (Inr (Some e),
        cs @ [CreateSnapshot i (''veeam_'' @ l @ ''_20240115_030000'') (Some ''veeam'') None,
              GetFilesystem i,
              CreateShare i (JStr ''vs1'') ''VeeamNASBackup_20240115_030000''
                (example_share_path (''veeam_'' @ l @ ''_20240115_030000''))])"
proof -
  have n: "snapshot_name_of example_world example_pre_config (JStr l) ''20240115_030000''
             = ''veeam_'' @ l @ ''_20240115_030000''"
    by (simp add: snapshot_name_of_def py_format_def example_pre_config_def)
  have c: "app_search_id example_pre_config = ''veeam''
           \<and> retention_interval example_pre_config = 0
           \<and> create_share example_pre_config
           \<and> smb_share_name example_pre_config = ''VeeamNASBackup''"
    by (simp add: example_pre_config_def)
  show ?thesis
    unfolding snapshot_one_def n
    by (simp add: c example_create_snapshot example_create_smb_share share_fields_def Let_def)
qed

lemma example_strip: "strip ''fs-alpha'' = ''fs-alpha''" "strip '' fs-beta'' = ''fs-beta''"
  by code_simp+

lemma example_snapshot_filesystems:
  "\<exists>e1 e2. snapshot_filesystems example_world example_pre_config ''20240115_030000''
             [''fs-alpha'', '' fs-beta''] [] [Probe]
           = (Inr [e1, e2], example_pre_calls)"
proof -
  from example_snapshot_one [of "JStr ''A1''" "''fs-alpha''" "[Probe, ListFilesystems]"]
  obtain e1 where s1: "snapshot_one example_world example_pre_config ''20240115_030000''
                         (JStr ''A1'') (JStr ''fs-alpha'') [Probe, ListFilesystems]
                       = (Inr (Some e1), take 5 example_pre_calls)"
    by (auto simp add: example_pre_calls_def)
  from example_snapshot_one [of "JStr ''B2''" "''fs-beta''"
         "take 5 example_pre_calls @ [ListFilesystems]"]
  obtain e2 where s2: "snapshot_one example_world example_pre_config ''20240115_030000''
                         (JStr ''B2'') (JStr ''fs-beta'')
                         (take 5 example_pre_calls @ [ListFilesystems])
                       = (Inr (Some e2), example_pre_calls)"
    by (auto simp add: example_pre_calls_def)
  have "snapshot_filesystems example_world example_pre_config ''20240115_030000''
             [''fs-alpha'', '' fs-beta''] [] [Probe]
           = (Inr [e1, e2], example_pre_calls)"
    by (simp add: example_strip example_resolve s1 s2)
  then show ?thesis
    by blast
qed

lemma example_dirname:
  "posix_dirname ''/var/veeam/hnas_snapshot_info.json'' = ''/var/veeam''"
  "posix_dirname ''hnas_snapshot_info.json'' = []"
  by code_simp+

lemma example_pre_started:
  "pre_main env example_world
     = (case snapshot_filesystems example_world example_pre_config ''20240115_030000''
               [''fs-alpha'', '' fs-beta''] [] [Probe] of
          (Inl e, cs1) \<Rightarrow>
            \<lparr>pre_outcome = Uncaught e, pre_calls = cs1, manifest_written = None\<rparr>
        | (Inr created_snapshots, cs1) \<Rightarrow>
            write_manifest example_world env example_pre_config ''20240115_030000''
              created_snapshots cs1)"
  if "pre_configuration env = Inr example_pre_config"
proof -
  have fields: "hnas_host example_pre_config \<noteq> []" "username example_pre_config \<noteq> []"
    "password example_pre_config \<noteq> []" "filesystems example_pre_config \<noteq> []"
    "filesystems example_pre_config \<noteq> [[]]"
    by (simp_all add: example_pre_config_def)
  have refs: "filesystems example_pre_config = [''fs-alpha'', '' fs-beta'']"
    by (simp add: example_pre_config_def)
  have connected: "fst (test_connection example_world [])"
    by (simp add: example_probe)
  show ?thesis
    unfolding pre_main_run [OF that fields connected]
    by (simp only: example_probe snd_conv example_world_parts example_timestamp refs)
qed


lemma manifest_is_written:
  assumes "pre_configuration env = Inr config"
    and "hnas_host config \<noteq> []" and "username config \<noteq> []" and "password config \<noteq> []"
    and "filesystems config \<noteq> []" and "filesystems config \<noteq> [[]]"
    and "fst (test_connection w [])"
    and "snapshot_filesystems w config (strftime (clock w [Probe])) (filesystems config)
           [] [Probe] = (Inr created, cs1)"
    and "os_path_dirname w (getenv env ''VEEAM_SNAPSHOT_INFO'' default_snapshot_info_file) \<noteq> []"
    and "manifest_writable w"
  shows "(\<exists>doc. manifest_written (pre_main env w)
                 = Some (getenv env ''VEEAM_SNAPSHOT_INFO'' default_snapshot_info_file, JObj doc)
               \<and> dict_get doc ''snapshots'' JNull = JArr created)
         \<and> (exit_status (pre_outcome (pre_main env w)) \<noteq> 0) = (created = [])"
  using pre_main_run [OF assms(1-7)] assms(8-10)
  by (simp add: write_manifest_def Let_def dict_get_def)

subsection \<open>The retention sweep of a run\<close>



















lemma env_targets_empty:
  assumes "strip raw = []"
  shows "env_targets w (raw # rest) fss vss cs = env_targets w rest fss vss cs"
  using assms by simp












subsection \<open>The cleanup decision\<close>

text \<open>
  Claim C1. With \<open>succeeded\<close> true exactly when \<^verbatim>\<open>VEEAM_JOB_RESULT\<close> is \<^verbatim>\<open>Success\<close> or
  \<^verbatim>\<open>Warning\<close>, a post-phase run that completes acts on the decision
  \<open>(succeeded \<and> cleanup_on_success) \<or> (\<not> succeeded \<and> cleanup_on_failure)\<close>: its last line
  reports a cleanup exactly when the decision is true and reports retention exactly when it
  is false, which gives the four rows of the truth table, and the manifest file is removed
  exactly when the decision is true, the file exists and its removal succeeds.
\<close>

theorem should_cleanup_decision:
  assumes "post_configuration env = Inr config"
    and "post_outcome (post_main env w) = Exit 0"
    and "succeeded = (getenv env ''VEEAM_JOB_RESULT'' ''Unknown'' = ''Success''
                      \<or> getenv env ''VEEAM_JOB_RESULT'' ''Unknown'' = ''Warning'')"
  shows "((\<exists>n. post_message (post_main env w) = Some (CleanedUp n))
            = ((succeeded \<and> cleanup_on_success config)
               \<or> (\<not> succeeded \<and> cleanup_on_failure config)))
         \<and> ((post_message (post_main env w) = Some Retained)
            = (\<not> ((succeeded \<and> cleanup_on_success config)
                  \<or> (\<not> succeeded \<and> cleanup_on_failure config))))
         \<and> (succeeded \<and> cleanup_on_success config
              \<longrightarrow> (\<exists>n. post_message (post_main env w) = Some (CleanedUp n)))
         \<and> (succeeded \<and> \<not> cleanup_on_success config
              \<longrightarrow> post_message (post_main env w) = Some Retained)
         \<and> (\<not> succeeded \<and> cleanup_on_failure config
              \<longrightarrow> (\<exists>n. post_message (post_main env w) = Some (CleanedUp n)))
         \<and> (\<not> succeeded \<and> \<not> cleanup_on_failure config
              \<longrightarrow> post_message (post_main env w) = Some Retained)
         \<and> manifest_removed (post_main env w)
             = (((succeeded \<and> cleanup_on_success config)
                 \<or> (\<not> succeeded \<and> cleanup_on_failure config))
                \<and> manifest_file w \<noteq> NoFile \<and> remove_succeeds w)"
proof -
  define D where "D = ((succeeded \<and> cleanup_on_success config)
                       \<or> (\<not> succeeded \<and> cleanup_on_failure config))"
  have dec: "should_cleanup (fst (validate_backup_result env)) config = D"
    by (simp add: should_cleanup_def validate_backup_result_succeeded D_def assms(3))
  from post_main_reaches_run [OF assms(2)] assms(1)
  have eq: "post_main env w
              = post_run w env config (fst (validate_backup_result env))
                  (snd (test_connection w []))"
    by auto
  from assms(2)
  have "post_outcome (post_run w env config (fst (validate_backup_result env))
          (snd (test_connection w []))) = Exit 0"
    by (simp add: eq)
  from post_run_completed [OF this]
  obtain n where msg: "post_message (post_main env w)
                         = Some (if D then CleanedUp n else Retained)"
    and rem: "manifest_removed (post_main env w)
                = (D \<and> manifest_file w \<noteq> NoFile \<and> remove_succeeds w)"
    unfolding eq [symmetric] dec by blast
  have "((\<exists>n. post_message (post_main env w) = Some (CleanedUp n)) = D)
        \<and> ((post_message (post_main env w) = Some Retained) = (\<not> D))
        \<and> manifest_removed (post_main env w)
            = (D \<and> manifest_file w \<noteq> NoFile \<and> remove_succeeds w)"
    using msg rem by (cases D) simp_all
  then show ?thesis
    unfolding D_def by blast
qed

theorem should_cleanup_decision_witness:
  "post_configuration warning_env = Inr warning_config
   \<and> post_outcome (post_main warning_env manifest_world) = Exit 0
   \<and> getenv warning_env ''VEEAM_JOB_RESULT'' ''Unknown'' = ''Warning''
   \<and> cleanup_on_success warning_config
   \<and> post_message (post_main warning_env manifest_world) = Some (CleanedUp 1)
   \<and> post_calls (post_main warning_env manifest_world)
       = [Probe, DeleteShare (JStr ''share-1''), DeleteSnapshot (JStr ''snap-1'')]
   \<and> manifest_removed (post_main warning_env manifest_world)
   \<and> post_configuration failed_env = Inr failed_config
   \<and> post_outcome (post_main failed_env manifest_world) = Exit 0
   \<and> getenv failed_env ''VEEAM_JOB_RESULT'' ''Unknown'' = ''Failed''
   \<and> \<not> cleanup_on_failure failed_config
   \<and> post_message (post_main failed_env manifest_world) = Some Retained
   \<and> \<not> manifest_removed (post_main failed_env manifest_world)"
proof -
  note c = warning_configuration
  have o: "post_outcome (post_main warning_env manifest_world) = Exit 0"
    by (simp add: manifest_run)
  have j: "getenv warning_env ''VEEAM_JOB_RESULT'' ''Unknown'' = ''Warning''"
    by (simp add: warning_env_def getenv_def)
  then have s: "True = (getenv warning_env ''VEEAM_JOB_RESULT'' ''Unknown'' = ''Success''
                        \<or> getenv warning_env ''VEEAM_JOB_RESULT'' ''Unknown'' = ''Warning'')"
    by simp
  note c' = failed_configuration
  have o': "post_outcome (post_main failed_env manifest_world) = Exit 0"
    by (simp add: failed_run)
  have j': "getenv failed_env ''VEEAM_JOB_RESULT'' ''Unknown'' = ''Failed''"
    by (simp add: failed_env_def example_env_def getenv_def)
  then have s': "False = (getenv failed_env ''VEEAM_JOB_RESULT'' ''Unknown'' = ''Success''
                          \<or> getenv failed_env ''VEEAM_JOB_RESULT'' ''Unknown'' = ''Warning'')"
    by simp
  from should_cleanup_decision [OF c o s] should_cleanup_decision [OF c' o' s'] c o j c' o' j'
  show ?thesis
    by (simp add: manifest_run failed_run warning_config_def failed_config_def)
qed

subsection \<open>The retention sweep over snapshots\<close>

text \<open>
  Claim C2 (as amended). In the snapshot retention sweep of a listing whose entries can be
  read, a delete request is issued for exactly the entries that are due, in listing order: an
  entry is due when its normalised creation time is strictly before the cutoff and it carries
  a non-empty object identifier. A creation time equal to the cutoff is not due; a creation
  time that arrives as a numeric string is converted by \<^verbatim>\<open>int()\<close> before the comparison; an
  entry whose creation-time string does not parse is never due.
\<close>

theorem snapshot_retention_sweep:
  assumes "get_filesystem_snapshots w i a cs = (JArr snaps, cs1)"
    and "epoch_cutoff w cs1 days = Some cutoff"
    and "list_all readable_snapshot snaps"
  shows "fst (snd (cleanup_old_snapshots w i a days cs))
           = cs1 @ map (\<lambda>x. DeleteSnapshot (object_id x)) (filter (due_snapshot cutoff) snaps)
         \<and> (\<forall>kv t. dict_get kv ''creationTime'' (JInt 0) = JInt t
               \<longrightarrow> due_snapshot cutoff (JObj kv)
                     = (t < cutoff \<and> truthy (object_id (JObj kv))))
         \<and> (\<forall>kv. dict_get kv ''creationTime'' (JInt 0) = JInt cutoff
               \<longrightarrow> \<not> due_snapshot cutoff (JObj kv))
         \<and> (\<forall>kv s t. dict_get kv ''creationTime'' (JInt 0) = JStr s \<and> py_int s = Some t
               \<longrightarrow> due_snapshot cutoff (JObj kv)
                     = (t < cutoff \<and> truthy (object_id (JObj kv))))
         \<and> (\<forall>kv s. dict_get kv ''creationTime'' (JInt 0) = JStr s \<and> py_int s = None
               \<longrightarrow> \<not> due_snapshot cutoff (JObj kv))"
  using cleanup_old_snapshots_calls [OF assms]
  by (simp add: due_snapshot_def creation_epoch_def)

theorem snapshot_retention_sweep_witness:
  "get_filesystem_snapshots example_world (JStr ''A1'') ''veeam'' []
     = (JArr example_snapshots, [ListSnapshots (JStr ''A1'') ''veeam''])
   \<and> epoch_cutoff example_world [ListSnapshots (JStr ''A1'') ''veeam''] 7 = Some 1000
   \<and> list_all readable_snapshot example_snapshots
   \<and> fst (snd (cleanup_old_snapshots example_world (JStr ''A1'') ''veeam'' 7 []))
       = [ListSnapshots (JStr ''A1'') ''veeam'', DeleteSnapshot (JStr ''s-old''),
          DeleteSnapshot (JStr ''s-text''), DeleteSnapshot (JStr ''s-none'')]"
proof -
  have l: "get_filesystem_snapshots example_world (JStr ''A1'') ''veeam'' []
             = (JArr example_snapshots, [ListSnapshots (JStr ''A1'') ''veeam''])"
    by (simp add: example_listing)
  have c: "epoch_cutoff example_world [ListSnapshots (JStr ''A1'') ''veeam''] 7 = Some 1000"
    by (simp add: example_world_def)
  note r = example_snapshots_readable
  from snapshot_retention_sweep [OF l c r] l c r show ?thesis
    by (simp add: example_due object_id_def dict_get_def)
qed

theorem old_snapshot_without_identifier_is_kept:
  "get_filesystem_snapshots anonymous_snapshot_world (JStr ''A1'') ''veeam'' []
     = (JArr [anonymous_snapshot], [ListSnapshots (JStr ''A1'') ''veeam''])
   \<and> epoch_cutoff anonymous_snapshot_world [ListSnapshots (JStr ''A1'') ''veeam''] 7 = Some 1000
   \<and> creation_epoch anonymous_snapshot = Epoch 5
   \<and> (5 :: int) < 1000
   \<and> cleanup_old_snapshots anonymous_snapshot_world (JStr ''A1'') ''veeam'' 7 []
       = (0, [ListSnapshots (JStr ''A1'') ''veeam''], [])"
  by (simp add: get_filesystem_snapshots_def request_def world_answering_def example_world_def
        response_json_def raise_for_status_def dict_get_def anonymous_snapshot_world_def
        anonymous_snapshot_def creation_epoch_def cleanup_old_snapshots_def)


subsection \<open>The retention sweep over shares\<close>




text \<open>
  Claim C4. For both delete operations (snapshot and share): an answer with status 404 gives
  the result True; an answer with any other error status (400 to 599) gives False; and when
  the transport fails and there is no answer, the result is False as well. The result is a
  boolean in every case, so no exception leaves the method.
\<close>

theorem delete_not_found_is_success:
  "(remote w cs (DeleteSnapshot i) = Response 404 b \<longrightarrow> fst (delete_snapshot w i cs) = True)
   \<and> (remote w cs (DeleteSnapshot i) = Response s b \<and> 400 \<le> s \<and> s < 600 \<and> s \<noteq> 404
        \<longrightarrow> fst (delete_snapshot w i cs) = False)
   \<and> (remote w cs (DeleteSnapshot i) = NoResponse \<longrightarrow> fst (delete_snapshot w i cs) = False)
   \<and> (remote w cs (DeleteShare i) = Response 404 b \<longrightarrow> fst (delete_smb_share w i cs) = True)
   \<and> (remote w cs (DeleteShare i) = Response s b \<and> 400 \<le> s \<and> s < 600 \<and> s \<noteq> 404
        \<longrightarrow> fst (delete_smb_share w i cs) = False)
   \<and> (remote w cs (DeleteShare i) = NoResponse \<longrightarrow> fst (delete_smb_share w i cs) = False)"
  by (simp add: delete_snapshot_eq delete_smb_share_eq delete_outcome_Response
        delete_outcome_NoResponse)

theorem delete_not_found_is_success_witness:
  "remote (world_answering (Response 404 None)) [] (DeleteSnapshot (JStr ''s-old'')) = Response 404 None
   \<and> fst (delete_snapshot (world_answering (Response 404 None)) (JStr ''s-old'') []) = True
   \<and> fst (delete_smb_share (world_answering (Response 404 None)) (JStr ''s-old'') []) = True
   \<and> remote (world_answering (Response 500 None)) [] (DeleteSnapshot (JStr ''s-old'')) = Response 500 None
   \<and> fst (delete_snapshot (world_answering (Response 500 None)) (JStr ''s-old'') []) = False
   \<and> fst (delete_smb_share (world_answering (Response 500 None)) (JStr ''s-old'') []) = False
   \<and> remote (world_answering NoResponse) [] (DeleteSnapshot (JStr ''s-old'')) = NoResponse
   \<and> fst (delete_snapshot (world_answering NoResponse) (JStr ''s-old'') []) = False
   \<and> fst (delete_smb_share (world_answering NoResponse) (JStr ''s-old'') []) = False"
  using delete_not_found_is_success
          [of "world_answering (Response 404 None)" "[]" "JStr ''s-old''" None 404]
        delete_not_found_is_success
          [of "world_answering (Response 500 None)" "[]" "JStr ''s-old''" None 500]
        delete_not_found_is_success
          [of "world_answering NoResponse" "[]" "JStr ''s-old''" None 500]
  by (simp add: world_answering_remote)

subsection \<open>When the retention sweep runs\<close>



subsection \<open>The manifest of the snapshot phase\<close>

text \<open>
  Claim C6. For a run that passes the start-up checks the output stage writes the manifest
  whether or not a snapshot was created, and the exit status is 1 exactly when none was; a
  reference that cannot be resolved or a snapshot that cannot be created is passed over. But
  the directory of the manifest is created with
  \<^verbatim>\<open>os.makedirs(os.path.dirname(file), exist_ok=True)\<close>, and for a manifest path that is a
  bare file name the directory name is empty and \<^verbatim>\<open>os.makedirs('')\<close> raises
  FileNotFoundError: on that input the run below creates two snapshots, writes no manifest
  and ends with the exit status 1.
\<close>

theorem bare_manifest_path_is_not_written:
  "getenv bare_path_env ''VEEAM_SNAPSHOT_INFO'' default_snapshot_info_file
     = ''hnas_snapshot_info.json''
   \<and> os_path_dirname example_world ''hnas_snapshot_info.json'' = []
   \<and> pre_main bare_path_env example_world
       = \<lparr>pre_outcome = Uncaught FileNotFoundError, pre_calls = example_pre_calls,
          manifest_written = None\<rparr>
   \<and> map display_name (filter is_create_snapshot example_pre_calls)
       = [''veeam_fs-alpha_20240115_030000'', ''veeam_fs-beta_20240115_030000'']
   \<and> exit_status (pre_outcome (pre_main bare_path_env example_world)) = 1"
proof -
  from example_snapshot_filesystems obtain e1 e2
    where "snapshot_filesystems example_world example_pre_config ''20240115_030000''
             [''fs-alpha'', '' fs-beta''] [] [Probe] = (Inr [e1, e2], example_pre_calls)"
    by blast
  then have run: "pre_main bare_path_env example_world
               = write_manifest example_world bare_path_env example_pre_config
                   ''20240115_030000'' [e1, e2] example_pre_calls"
    by (simp add: example_pre_started [OF bare_path_pre_configuration])
  have path: "getenv bare_path_env ''VEEAM_SNAPSHOT_INFO'' default_snapshot_info_file
                = ''hnas_snapshot_info.json''"
    by (simp add: bare_path_env_def getenv_def)
  have names: "map display_name (filter is_create_snapshot example_pre_calls)
                 = [''veeam_fs-alpha_20240115_030000'', ''veeam_fs-beta_20240115_030000'']"
    by (simp add: example_pre_calls_def)
  from run path names show ?thesis
    by (simp add: write_manifest_def example_world_parts example_dirname)
qed

subsection \<open>Resolution of references in both phases\<close>



subsection \<open>Names of the snapshots of a run\<close>



text \<open>
  Claim C9. \<^verbatim>\<open>VEEAM_SESSION_RESULT\<close> is read and never used: two post-phase runs whose
  environments differ only in that variable (set to any value, or unset) classify the backup
  the same way and behave the same in every respect the model records; the classification
  depends on \<^verbatim>\<open>VEEAM_JOB_RESULT\<close> alone.
\<close>

theorem session_result_is_ignored:
  "post_main (env(''VEEAM_SESSION_RESULT'' := v)) w = post_main env w
   \<and> validate_backup_result (env(''VEEAM_SESSION_RESULT'' := v)) = validate_backup_result env
   \<and> fst (validate_backup_result env)
       = (getenv env ''VEEAM_JOB_RESULT'' ''Unknown'' = ''Success''
          \<or> getenv env ''VEEAM_JOB_RESULT'' ''Unknown'' = ''Warning'')"
proof -
  have "post_main (env(''VEEAM_SESSION_RESULT'' := v)) w = post_main env w"
    unfolding post_main_def validate_backup_result_session post_configuration_session
      post_run_session by (rule refl)
  then show ?thesis
    by (simp add: validate_backup_result_session validate_backup_result_succeeded)
qed

theorem session_result_is_ignored_witness:
  "post_main (warning_env(''VEEAM_SESSION_RESULT'' \<mapsto> ''Failed'')) stale_manifest_world
     = post_main warning_env stale_manifest_world
   \<and> fst (validate_backup_result (warning_env(''VEEAM_SESSION_RESULT'' \<mapsto> ''Failed''))) = True"
proof -
  have j: "getenv warning_env ''VEEAM_JOB_RESULT'' ''Unknown'' = ''Warning''"
    by (simp add: warning_env_def getenv_def)
  from session_result_is_ignored [of warning_env "Some ''Failed''" stale_manifest_world] j
  show ?thesis
    by simp
qed



end
